theory Spec2Isabelle
  imports Complex_Main "HOL-Library.Word"
begin

section \<open>JavaScript strings and JSON values\<close>

text \<open>
  A JavaScript string is a sequence of UTF-16 code units; \<open>length\<close>, \<open>trim\<close> and
  \<open>===\<close> all work on code units. The literals of the source are ASCII and are written
  \<open>js ''...''\<close>.
\<close>

type_synonym jsstring = "16 word list"

definition js :: "string \<Rightarrow> jsstring" where
  "js s = map of_char s"

text \<open>
  \<open>String.prototype.trim\<close> removes leading and trailing WhiteSpace and LineTerminator
  code units (ECMA-262: TAB, VT, FF, SP, NBSP, ZWNBSP, the Unicode space separators, LF, CR,
  LS, PS).
\<close>

definition isWhiteSpace :: "16 word \<Rightarrow> bool" where
  "isWhiteSpace c \<longleftrightarrow>
     c = 0x9 \<or> c = 0xA \<or> c = 0xB \<or> c = 0xC \<or> c = 0xD \<or> c = 0x20 \<or> c = 0xA0 \<or>
     c = 0x1680 \<or> (0x2000 \<le> c \<and> c \<le> 0x200A) \<or> c = 0x2028 \<or> c = 0x2029 \<or>
     c = 0x202F \<or> c = 0x205F \<or> c = 0x3000 \<or> c = 0xFEFF"

definition trim :: "jsstring \<Rightarrow> jsstring" where
  "trim s = rev (dropWhile isWhiteSpace (rev (dropWhile isWhiteSpace s)))"

text \<open>
  A string is well formed when every surrogate code unit is half of a pair
  (\<open>String.prototype.isWellFormed\<close>). Encoding a string as UTF-8 turns each unpaired
  surrogate into U+FFFD (\<open>String.prototype.toWellFormed\<close>).
\<close>

definition isHighSurrogate :: "16 word \<Rightarrow> bool" where
  "isHighSurrogate c \<longleftrightarrow> 0xD800 \<le> c \<and> c \<le> 0xDBFF"

definition isLowSurrogate :: "16 word \<Rightarrow> bool" where
  "isLowSurrogate c \<longleftrightarrow> 0xDC00 \<le> c \<and> c \<le> 0xDFFF"

fun isWellFormed :: "jsstring \<Rightarrow> bool" where
  "isWellFormed [] = True"
| "isWellFormed [c] = (\<not> isHighSurrogate c \<and> \<not> isLowSurrogate c)"
| "isWellFormed (c # d # cs) =
     (if isHighSurrogate c then isLowSurrogate d \<and> isWellFormed cs
      else \<not> isLowSurrogate c \<and> isWellFormed (d # cs))"

fun toWellFormed :: "jsstring \<Rightarrow> jsstring" where
  "toWellFormed [] = []"
| "toWellFormed [c] = [if isHighSurrogate c \<or> isLowSurrogate c then 0xFFFD else c]"
| "toWellFormed (c # d # cs) =
     (if isHighSurrogate c \<and> isLowSurrogate d then c # d # toWellFormed cs
      else (if isHighSurrogate c \<or> isLowSurrogate c then 0xFFFD else c) # toWellFormed (d # cs))"

text \<open>
  A decoded payload: the values \<open>JSON.parse\<close> produces. An object is the list of its own
  properties; reading a property that is absent gives \<open>undefined\<close>, here \<open>None\<close>.
\<close>

datatype json =
    JNull
  | JBool bool
  | JNum real
  | JStr jsstring
  | JArr "json list"
  | JObj "(jsstring \<times> json) list"

definition property :: "(jsstring \<times> json) list \<Rightarrow> string \<Rightarrow> json option" where
  "property obj k = map_of obj (js k)"

text \<open>
  What the transport hands to the message callback: a binary frame (an \<open>ArrayBuffer\<close> or a
  view on one) or any other value; a text frame is the value \<open>JStr s\<close>.
\<close>

datatype raw_message = Binary "8 word list" | Val json

section \<open>Command validator (server/websocket/validators.ts, found in src/server/index.ts; server/websocket/types.ts)\<close>

datatype WebSocketErrorCode =
    invalid_message
  | invalid_message_data
  | unknown_message_type
  | project_access_denied
  | not_implemented
  | internal_error
  | generation_in_progress
  | generation_not_in_progress

record WebSocketErrorData =
  code :: WebSocketErrorCode
  message :: jsstring

text \<open>
  \<open>ValidatedClientMessage\<close>: a control message keeps its type string and its untyped data
  object; a \<open>user_message\<close> carries the output of \<open>userMessageDataSchema\<close>, an object with the
  single property \<open>content\<close>.
\<close>

datatype ValidatedClientMessage =
    Control jsstring "(jsstring \<times> json) list"
  | UserMessage jsstring

type_synonym ClientMessageValidationResult = "WebSocketErrorData + ValidatedClientMessage"

definition CLIENT_MESSAGE_TYPES :: "jsstring list" where
  "CLIENT_MESSAGE_TYPES =
     [js ''start_generation'', js ''stop_generation'', js ''user_message'',
      js ''get_state'', js ''get_preview_url'']"

definition knownClientMessageTypes :: "jsstring set" where
  "knownClientMessageTypes = set CLIENT_MESSAGE_TYPES"

definition toError :: "WebSocketErrorCode \<Rightarrow> jsstring \<Rightarrow> ClientMessageValidationResult" where
  "toError c m = Inl \<lparr>code = c, message = m\<rparr>"

text \<open>
  \<open>userMessageDataSchema = z.object({ content: z.string().trim().min(1) })\<close>:
  \<open>safeParse\<close> fails unless \<open>content\<close> is a string; the string is trimmed, then its length
  is checked, and the parsed output carries the trimmed string.
\<close>

definition userMessageDataSchema_safeParse :: "(jsstring \<times> json) list \<Rightarrow> jsstring option" where
  "userMessageDataSchema_safeParse d =
     (case property d ''content'' of
        Some (JStr s) \<Rightarrow> (if 1 \<le> length (trim s) then Some (trim s) else None)
      | _ \<Rightarrow> None)"

text \<open>
  \<open>TextDecoder.decode\<close> and \<open>JSON.parse\<close> belong to the platform; they are parameters
  (\<open>decode\<close>, \<open>parse\<close>), and \<open>parse s = None\<close> stands for the \<open>SyntaxError\<close> thrown.
\<close>

definition decodeIfBinary :: "(8 word list \<Rightarrow> jsstring) \<Rightarrow> raw_message \<Rightarrow> json" where
  "decodeIfBinary decode rawMessage =
     (case rawMessage of Binary b \<Rightarrow> JStr (decode b) | Val v \<Rightarrow> v)"

definition toPlainObject :: "json \<Rightarrow> (jsstring \<times> json) list option" where
  "toPlainObject v = (case v of JObj obj \<Rightarrow> Some obj | _ \<Rightarrow> None)"

definition parseMessagePayload ::
  "(8 word list \<Rightarrow> jsstring) \<Rightarrow> (jsstring \<Rightarrow> json option) \<Rightarrow> raw_message \<Rightarrow> json option" where
  "parseMessagePayload decode parse rawMessage =
     (case decodeIfBinary decode rawMessage of
        JStr s \<Rightarrow> parse s
      | decodedPayload \<Rightarrow> Some decodedPayload)"

text \<open>The checks after the payload has been parsed, in the order of the source.\<close>

definition validateEnvelope :: "json \<Rightarrow> ClientMessageValidationResult" where
  \<open>validateEnvelope messagePayload =
     (case toPlainObject messagePayload of
        None \<Rightarrow>
          toError invalid_message
            (js ''WebSocket message must be an object with a string type field'')
      | Some envelope \<Rightarrow>
          (case property envelope ''type'' of
             Some (JStr type) \<Rightarrow>
               if type \<notin> knownClientMessageTypes then
                 toError unknown_message_type
                   (js ''Unknown message type "'' @ type @ js ''"'')
               else
                 (case toPlainObject
                         (case property envelope ''data'' of
                            None \<Rightarrow> JObj [] | Some JNull \<Rightarrow> JObj [] | Some d \<Rightarrow> d) of
                    None \<Rightarrow>
                      toError invalid_message_data
                        (js ''WebSocket message "data" must be an object'')
                  | Some data \<Rightarrow>
                      if type = js ''start_generation'' then Inr (Control type data)
                      else if type = js ''stop_generation'' then Inr (Control type data)
                      else if type = js ''get_state'' then Inr (Control type data)
                      else if type = js ''get_preview_url'' then Inr (Control type data)
                      else if type = js ''user_message'' then
                        (case userMessageDataSchema_safeParse data of
                           None \<Rightarrow>
                             toError invalid_message_data
                               (js ''"user_message" requires data.content as a non-empty string'')
                         | Some content \<Rightarrow> Inr (UserMessage content))
                      else
                        toError unknown_message_type
                          (js ''Unknown message type "'' @ type @ js ''"''))
           | _ \<Rightarrow>
               toError invalid_message
                 (js ''WebSocket message "type" must be a string'')))\<close>

definition validateClientMessage ::
  "(8 word list \<Rightarrow> jsstring) \<Rightarrow> (jsstring \<Rightarrow> json option) \<Rightarrow> raw_message
     \<Rightarrow> ClientMessageValidationResult" where
  "validateClientMessage decode parse rawMessage =
     (case parseMessagePayload decode parse rawMessage of
        None \<Rightarrow>
          toError invalid_message
            (js ''WebSocket message must be valid JSON and follow the { type, data } shape'')
      | Some messagePayload \<Rightarrow> validateEnvelope messagePayload)"

section \<open>The store (shared/types and shared/db/schema.ts, found in src/unnamed/part_012)\<close>

text \<open>
  One record per table row, with the columns of the schema. A nullable column is an
  \<open>option\<close>; a timestamp is an instant, a natural number. \<open>current_phase\<close> is an
  \<open>integer\<close> column: a signed 32-bit word, read with \<open>sint\<close>.
\<close>

datatype Role = role_user | role_assistant | role_system

record Message =
  role :: Role
  content :: jsstring
  timestamp :: jsstring

record PhaseFile =
  phasefile_path :: jsstring
  phasefile_purpose :: jsstring

record Phase =
  phase_name :: jsstring
  phase_description :: jsstring
  phase_files :: "PhaseFile list"
  isLastPhase :: bool

record Project =
  project_id :: jsstring
  project_name :: jsstring
  project_description :: "jsstring option"
  project_createdAt :: nat
  project_updatedAt :: nat
  project_userId :: jsstring
  project_status :: jsstring
  project_previewUrl :: "jsstring option"
  project_sandboxId :: "jsstring option"

record ProjectFile =
  file_id :: jsstring
  file_projectId :: jsstring
  file_path :: jsstring
  file_content :: jsstring
  file_createdAt :: nat
  file_updatedAt :: nat

record AgentState =
  state_id :: jsstring
  state_projectId :: jsstring
  currentState :: jsstring
  currentPhase :: "32 word option"
  phases :: "Phase list option"
  state_sandboxId :: "jsstring option"
  state_previewUrl :: "jsstring option"
  generatedFiles :: "jsstring list option"
  conversationHistory :: "Message list option"
  state_createdAt :: nat
  state_updatedAt :: nat

text \<open>
  The database: the rows of the tables \<open>projects\<close>, \<open>project_files\<close> and
  \<open>agent_states\<close>, and the ids of the rows of \<open>user\<close>, which \<open>projects.user_id\<close>
  references.
\<close>

record Database =
  user :: "jsstring list"
  projects :: "Project list"
  projectFiles :: "ProjectFile list"
  agent_states :: "AgentState list"

text \<open>
  The constraints of the schema: primary key \<open>id\<close> on each table, \<open>unique(project_id, path)\<close>
  on \<open>project_files\<close>, \<open>unique(project_id)\<close> on \<open>agent_states\<close>, and the foreign keys.
  Every database the store can hold satisfies them.
\<close>

definition schema_ok :: "Database \<Rightarrow> bool" where
  "schema_ok db \<longleftrightarrow>
     distinct (map project_id (projects db)) \<and>
     distinct (map file_id (projectFiles db)) \<and>
     distinct (map (\<lambda>f. (file_projectId f, file_path f)) (projectFiles db)) \<and>
     distinct (map state_id (agent_states db)) \<and>
     distinct (map state_projectId (agent_states db)) \<and>
     (\<forall>p \<in> set (projects db). project_userId p \<in> set (user db)) \<and>
     (\<forall>f \<in> set (projectFiles db). file_projectId f \<in> project_id ` set (projects db)) \<and>
     (\<forall>s \<in> set (agent_states db). state_projectId s \<in> project_id ` set (projects db))"

text \<open>
  What the column types take. A JavaScript number bound to the \<open>integer\<close> column is taken
  when it is an integer within the signed 32-bit range; any other number (a fraction, NaN,
  an infinity, an integer out of range) is refused. A string bound to a \<open>text\<close> column is
  refused when it holds U+0000; otherwise it is sent as UTF-8, so it is stored well formed. The
  \<open>jsonb\<close> columns are written as \<open>JSON.stringify\<close> of the value, and the store refuses
  the document when one of its strings holds U+0000 or an unpaired surrogate.

  These checks are written out for the statements that insert a project and that write a
  run state, whose values come from callers and from clients. The key columns (\<open>id\<close>,
  \<open>project_id\<close>, \<open>user_id\<close>, \<open>path\<close>) are compared and stored as the caller gives
  them: callers take them from stored rows, from the session or from
  \<open>crypto.randomUUID()\<close>.
\<close>

datatype JSNumber = Integral int | NonIntegral

definition integer_value :: "JSNumber \<Rightarrow> 32 word option" where
  "integer_value n =
     (case n of
        Integral i \<Rightarrow> if - (2 ^ 31) \<le> i \<and> i < 2 ^ 31 then Some (word_of_int i) else None
      | NonIntegral \<Rightarrow> None)"

definition text_accepted :: "jsstring \<Rightarrow> bool" where
  "text_accepted s \<longleftrightarrow> 0 \<notin> set s"

definition jsonb_string_accepted :: "jsstring \<Rightarrow> bool" where
  "jsonb_string_accepted s \<longleftrightarrow> 0 \<notin> set s \<and> isWellFormed s"

definition jsonb_messages_accepted :: "Message list \<Rightarrow> bool" where
  "jsonb_messages_accepted ms =
     list_all (\<lambda>m. jsonb_string_accepted (content m) \<and> jsonb_string_accepted (timestamp m)) ms"

definition jsonb_phases_accepted :: "Phase list \<Rightarrow> bool" where
  "jsonb_phases_accepted ps =
     list_all
       (\<lambda>p. jsonb_string_accepted (phase_name p) \<and> jsonb_string_accepted (phase_description p) \<and>
            list_all (\<lambda>f. jsonb_string_accepted (phasefile_path f) \<and>
                          jsonb_string_accepted (phasefile_purpose f))
              (phase_files p))
       ps"

text \<open>
  What a repository call can throw (server/services/types.ts): a value that is not an
  object, an error object with a \<open>code\<close> property of its own, the error of the database
  client, or a \<open>UniqueConstraintError\<close> with its message and cause.

  The database client (drizzle-orm over node-postgres) rejects a statement with a
  \<open>DrizzleQueryError\<close>: an error object with no \<open>code\<close> property of its own, whose
  \<open>cause\<close> is the driver's error. The driver's error carries the SQLSTATE: \<open>23505\<close> for
  a unique violation, \<open>23503\<close> for a foreign-key violation, a code of class \<open>22\<close> for a
  value that the column type does not take. A thrown error leaves the database as it was (a
  statement is atomic, a transaction is rolled back).
\<close>

datatype DriverError = unique_violation | foreign_key_violation | data_exception

datatype Thrown =
    Primitive
  | CodedError jsstring
  | DrizzleQueryError DriverError
  | UniqueConstraintError jsstring Thrown

fun isDatabaseUniqueViolation :: "Thrown \<Rightarrow> bool" where
  "isDatabaseUniqueViolation (CodedError c) = (c = js ''23505'')"
| "isDatabaseUniqueViolation _ = False"

text \<open>
  Every writing call takes \<open>now\<close>, the instant that \<open>new Date()\<close>, \<open>$onUpdate\<close>
  and the column default \<open>now()\<close> yield while the call runs; it is read as one instant
  per repository call.
\<close>

text \<open>The first row of a result, \<open>const [row] = ...\<close>, or \<open>undefined\<close>.\<close>

definition first_row :: "'a list \<Rightarrow> 'a option" where
  "first_row rows = (case rows of [] \<Rightarrow> None | r # _ \<Rightarrow> Some r)"

section \<open>ProjectsRepository (src/server/services/projects-repository.ts)\<close>




definition owned_by :: "jsstring \<Rightarrow> jsstring \<Rightarrow> Project \<Rightarrow> bool" where
  "owned_by projectId userId p \<longleftrightarrow> project_id p = projectId \<and> project_userId p = userId"

definition getByIdForUser :: "Database \<Rightarrow> jsstring \<Rightarrow> jsstring \<Rightarrow> Project option" where
  "getByIdForUser db projectId userId =
     first_row (filter (owned_by projectId userId) (projects db))"






section \<open>ProjectFilesRepository (src/server/services/project-files-repository.ts)\<close>


definition canAccessProject :: "Database \<Rightarrow> jsstring \<Rightarrow> jsstring \<Rightarrow> bool" where
  "canAccessProject db projectId userId \<longleftrightarrow>
     first_row (filter (owned_by projectId userId) (projects db)) \<noteq> None"






section \<open>AgentStatesRepository (agent-states-repository.ts, found in src/server/services/types.ts)\<close>

text \<open>
  \<open>UpsertAgentStateInput\<close>: the optional properties are \<open>None\<close> when \<open>undefined\<close>;
  \<open>sandboxId\<close> and \<open>previewUrl\<close> can also be given as \<open>null\<close> (\<open>Some None\<close>).
\<close>

record UpsertAgentStateInput =
  uas_id :: jsstring
  uas_projectId :: jsstring
  uas_userId :: jsstring
  uas_currentState :: jsstring
  uas_sandboxId :: "jsstring option option"
  uas_previewUrl :: "jsstring option option"
  uas_currentPhase :: "JSNumber option"
  uas_phases :: "Phase list option"
  uas_generatedFiles :: "jsstring list option"
  uas_conversationHistory :: "Message list option"

text \<open>
  The inner join with \<open>projects\<close> on \<open>projects.id = agent_states.project_id\<close> and
  \<open>projects.user_id = userId\<close> keeps the state rows of the projects of this user.
\<close>

definition getByProjectForUser :: "Database \<Rightarrow> jsstring \<Rightarrow> jsstring \<Rightarrow> AgentState option" where
  "getByProjectForUser db projectId userId =
     first_row
       (filter (\<lambda>s. state_projectId s = projectId \<and>
                    (\<exists>p \<in> set (projects db). owned_by (state_projectId s) userId p))
          (agent_states db))"

text \<open>
  The statement \<open>insert into agent_states ... on conflict (project_id) do update set ...
  returning\<close>. Its parameters are checked by the column types before anything is written:
  \<open>currentState\<close>, \<open>sandboxId\<close> and \<open>previewUrl\<close> are \<open>text\<close>, \<open>currentPhase\<close> is
  \<open>integer\<close>, and \<open>phases\<close>, \<open>generatedFiles\<close>, \<open>conversationHistory\<close> are \<open>jsonb\<close>.
\<close>

definition state_values_accepted :: "UpsertAgentStateInput \<Rightarrow> bool" where
  "state_values_accepted input \<longleftrightarrow>
     text_accepted (uas_currentState input) \<and>
     (case uas_currentPhase input of None \<Rightarrow> True | Some n \<Rightarrow> integer_value n \<noteq> None) \<and>
     (case uas_sandboxId input of Some (Some t) \<Rightarrow> text_accepted t | _ \<Rightarrow> True) \<and>
     (case uas_previewUrl input of Some (Some t) \<Rightarrow> text_accepted t | _ \<Rightarrow> True) \<and>
     (case uas_phases input of None \<Rightarrow> True | Some ps \<Rightarrow> jsonb_phases_accepted ps) \<and>
     (case uas_generatedFiles input of
        None \<Rightarrow> True | Some fs \<Rightarrow> list_all jsonb_string_accepted fs) \<and>
     (case uas_conversationHistory input of
        None \<Rightarrow> True | Some h \<Rightarrow> jsonb_messages_accepted h)"

text \<open>
  The \<open>set\<close> clause always carries \<open>currentState\<close>, \<open>currentPhase\<close> and \<open>updatedAt\<close>,
  and each optional field only when the input defines it.
\<close>

definition merge_state :: "nat \<Rightarrow> UpsertAgentStateInput \<Rightarrow> AgentState \<Rightarrow> AgentState" where
  "merge_state now input s =
     s\<lparr>currentState := toWellFormed (uas_currentState input),
       currentPhase := Option.bind (uas_currentPhase input) integer_value,
       state_updatedAt := now,
       phases := (case uas_phases input of None \<Rightarrow> phases s | Some v \<Rightarrow> Some v),
       generatedFiles :=
         (case uas_generatedFiles input of None \<Rightarrow> generatedFiles s | Some v \<Rightarrow> Some v),
       conversationHistory :=
         (case uas_conversationHistory input of
            None \<Rightarrow> conversationHistory s | Some v \<Rightarrow> Some v),
       state_sandboxId :=
         (case uas_sandboxId input of
            None \<Rightarrow> state_sandboxId s | Some v \<Rightarrow> map_option toWellFormed v),
       state_previewUrl :=
         (case uas_previewUrl input of
            None \<Rightarrow> state_previewUrl s | Some v \<Rightarrow> map_option toWellFormed v)\<rparr>"

definition insert_state_onConflictDoUpdate ::
  "nat \<Rightarrow> Database \<Rightarrow> UpsertAgentStateInput \<Rightarrow> Thrown + (AgentState list \<times> Database)" where
  "insert_state_onConflictDoUpdate now db input =
     (if \<not> state_values_accepted input then Inl (DrizzleQueryError data_exception)
      else if \<exists>s \<in> set (agent_states db). state_projectId s = uas_projectId input then
        let rows = map (\<lambda>s. if state_projectId s = uas_projectId input
                             then merge_state now input s else s) (agent_states db)
        in Inr (filter (\<lambda>s. state_projectId s = uas_projectId input) rows,
                db\<lparr>agent_states := rows\<rparr>)
      else if uas_id input \<in> state_id ` set (agent_states db) then
        Inl (DrizzleQueryError unique_violation)
      else if uas_projectId input \<notin> project_id ` set (projects db) then
        Inl (DrizzleQueryError foreign_key_violation)
      else
        let row =
          \<lparr>state_id = uas_id input,
           state_projectId = uas_projectId input,
           currentState = toWellFormed (uas_currentState input),
           currentPhase = Option.bind (uas_currentPhase input) integer_value,
           phases = Some (case uas_phases input of None \<Rightarrow> [] | Some v \<Rightarrow> v),
           state_sandboxId =
             (case uas_sandboxId input of None \<Rightarrow> None | Some v \<Rightarrow> map_option toWellFormed v),
           state_previewUrl =
             (case uas_previewUrl input of None \<Rightarrow> None | Some v \<Rightarrow> map_option toWellFormed v),
           generatedFiles =
             Some (case uas_generatedFiles input of None \<Rightarrow> [] | Some v \<Rightarrow> v),
           conversationHistory =
             Some (case uas_conversationHistory input of None \<Rightarrow> [] | Some v \<Rightarrow> v),
           state_createdAt = now,
           state_updatedAt = now\<rparr>
        in Inr ([row], db\<lparr>agent_states := agent_states db @ [row]\<rparr>))"

definition upsertForProject ::
  "nat \<Rightarrow> Database \<Rightarrow> UpsertAgentStateInput \<Rightarrow> Thrown + (AgentState option \<times> Database)" where
  "upsertForProject now db input =
     (if \<not> canAccessProject db (uas_projectId input) (uas_userId input) then Inr (None, db)
      else
        (case insert_state_onConflictDoUpdate now db input of
           Inr (rows, db') \<Rightarrow> Inr (first_row rows, db')
         | Inl error \<Rightarrow>
             if isDatabaseUniqueViolation error then
               Inl (UniqueConstraintError
                      (js ''Agent state upsert violated a unique constraint for project '' @
                       uas_projectId input) error)
             else Inl error))"

section \<open>Session controller (server/websocket/handler.ts, found in src/unnamed/part_000)\<close>

record StateUpdateData =
  su_currentState :: jsstring
  su_currentPhase :: "int option"
  su_totalPhases :: nat
  su_generatedFiles :: "jsstring list"
  su_previewUrl :: "jsstring option"

datatype ProjectWebSocketServerMessage =
    agent_connected jsstring
  | state_update StateUpdateData
  | preview_url "jsstring option"
  | generation_error jsstring
  | error WebSocketErrorData

record ProjectWebSocketConnection =
  connectionId :: jsstring
  conn_projectId :: jsstring
  conn_userId :: jsstring

text \<open>
  The socket of one connection: its id, the route parameter and the authenticated user, and
  what the server has done to it: the messages sent, in order, and the last \<open>close\<close> call.
\<close>

record ProjectWebSocket =
  ws_id :: jsstring
  ws_projectId :: jsstring
  ws_userId :: jsstring
  sentMessages :: "ProjectWebSocketServerMessage list"
  closedWith :: "(nat \<times> jsstring) option"

text \<open>The state of the server: the database and the module-level map \<open>wsConnections\<close>.\<close>

record Server =
  database :: Database
  wsConnections :: "jsstring \<rightharpoonup> ProjectWebSocketConnection"

definition sendServerMessage ::
  "ProjectWebSocket \<Rightarrow> ProjectWebSocketServerMessage \<Rightarrow> ProjectWebSocket" where
  "sendServerMessage ws msg = ws\<lparr>sentMessages := sentMessages ws @ [msg]\<rparr>"

definition sendErrorMessage ::
  "ProjectWebSocket \<Rightarrow> WebSocketErrorCode \<Rightarrow> jsstring \<Rightarrow> ProjectWebSocket" where
  "sendErrorMessage ws c m = sendServerMessage ws (error \<lparr>code = c, message = m\<rparr>)"

definition ws_close :: "ProjectWebSocket \<Rightarrow> nat \<Rightarrow> jsstring \<Rightarrow> ProjectWebSocket" where
  "ws_close ws c reason = ws\<lparr>closedWith := Some (c, reason)\<rparr>"

definition access_denied :: "ProjectWebSocket \<Rightarrow> ProjectWebSocket" where
  "access_denied ws =
     ws_close
       (sendErrorMessage ws project_access_denied
          (js ''Project not found or not accessible for this user''))
       4003 (js ''Forbidden'')"

definition state_not_found :: "ProjectWebSocket \<Rightarrow> ProjectWebSocket" where
  "state_not_found ws =
     ws_close (sendErrorMessage ws internal_error (js ''Agent state not found''))
       4004 (js ''Not Found'')"

definition ensureAuthorizedConnection ::
  "ProjectWebSocket \<Rightarrow> Server \<Rightarrow> ProjectWebSocketConnection option \<times> ProjectWebSocket \<times> Server" where
  "ensureAuthorizedConnection ws srv =
     (case wsConnections srv (ws_id ws) of
        Some existingConnection \<Rightarrow> (Some existingConnection, ws, srv)
      | None \<Rightarrow>
          let connection =
            \<lparr>connectionId = ws_id ws, conn_projectId = ws_projectId ws,
             conn_userId = ws_userId ws\<rparr>
          in (case getByIdForUser (database srv) (conn_projectId connection)
                     (conn_userId connection) of
                None \<Rightarrow> (None, access_denied ws, srv)
              | Some project \<Rightarrow>
                  (Some connection, ws,
                   srv\<lparr>wsConnections :=
                         (wsConnections srv)(connectionId connection \<mapsto> connection)\<rparr>)))"

text \<open>
  A handler returns the socket and the database after it, or what it threw. Each handler
  issues at most one write and sends only after it, so a throw leaves both as they were.
\<close>

definition sendStateUpdate ::
  "ProjectWebSocket \<Rightarrow> ProjectWebSocketConnection \<Rightarrow> Database \<Rightarrow> ProjectWebSocket" where
  "sendStateUpdate ws connection db =
     (case getByIdForUser db (conn_projectId connection) (conn_userId connection) of
        None \<Rightarrow> access_denied ws
      | Some project \<Rightarrow>
          (case getByProjectForUser db (conn_projectId connection) (conn_userId connection) of
             None \<Rightarrow>
               sendServerMessage ws
                 (state_update
                    \<lparr>su_currentState = project_status project,
                     su_currentPhase = None,
                     su_totalPhases = 0,
                     su_generatedFiles = [],
                     su_previewUrl = project_previewUrl project\<rparr>)
           | Some agentState \<Rightarrow>
               sendServerMessage ws
                 (state_update
                    \<lparr>su_currentState = currentState agentState,
                     su_currentPhase = map_option sint (currentPhase agentState),
                     su_totalPhases =
                       (case phases agentState of None \<Rightarrow> 0 | Some ps \<Rightarrow> length ps),
                     su_generatedFiles =
                       (case generatedFiles agentState of None \<Rightarrow> [] | Some fs \<Rightarrow> fs),
                     su_previewUrl =
                       (case state_previewUrl agentState of
                          None \<Rightarrow> project_previewUrl project
                        | Some u \<Rightarrow> Some u)\<rparr>)))"

definition sendPreviewUrl ::
  "ProjectWebSocket \<Rightarrow> ProjectWebSocketConnection \<Rightarrow> Database \<Rightarrow> ProjectWebSocket" where
  "sendPreviewUrl ws connection db =
     (case getByIdForUser db (conn_projectId connection) (conn_userId connection) of
        None \<Rightarrow> access_denied ws
      | Some project \<Rightarrow> sendServerMessage ws (preview_url (project_previewUrl project)))"

definition handleStartGeneration ::
  "nat \<Rightarrow> ProjectWebSocket \<Rightarrow> ProjectWebSocketConnection \<Rightarrow> Database
     \<Rightarrow> Thrown + (ProjectWebSocket \<times> Database)" where
  "handleStartGeneration now ws connection db =
     (case getByIdForUser db (conn_projectId connection) (conn_userId connection) of
        None \<Rightarrow> Inr (access_denied ws, db)
      | Some project \<Rightarrow>
          (case getByProjectForUser db (conn_projectId connection) (conn_userId connection) of
             None \<Rightarrow> Inr (state_not_found ws, db)
           | Some agentState \<Rightarrow>
               if currentState agentState = js ''generating'' then
                 Inr (ws_close
                        (sendErrorMessage ws generation_in_progress
                           (js ''Generation already in progress''))
                        4000 (js ''Conflict''),
                      db)
               else
                 (case upsertForProject now db
                         \<lparr>uas_id = state_id agentState,
                          uas_projectId = conn_projectId connection,
                          uas_userId = conn_userId connection,
                          uas_currentState = js ''generating'',
                          uas_sandboxId = None,
                          uas_previewUrl = None,
                          uas_currentPhase = Some (Integral 0),
                          uas_phases = Some [],
                          uas_generatedFiles = Some [],
                          uas_conversationHistory = Some []\<rparr> of
                    Inl thrown \<Rightarrow> Inl thrown
                  | Inr (_, db') \<Rightarrow>
                      Inr (sendServerMessage ws
                             (state_update
                                \<lparr>su_currentState = js ''generating'',
                                 su_currentPhase = Some 0,
                                 su_totalPhases = 0,
                                 su_generatedFiles = [],
                                 su_previewUrl = state_previewUrl agentState\<rparr>),
                           db'))))"

text \<open>
  \<open>handleStopGeneration\<close> sets \<open>generatedFiles\<close> and \<open>currentPhase\<close> on the object it
  read, then upserts \<open>currentState\<close>, \<open>currentPhase\<close> and \<open>phases: []\<close> only. The reply
  takes \<open>generatedFiles\<close> and \<open>previewUrl\<close> from the returned row, else from the object.
\<close>

definition handleStopGeneration ::
  "nat \<Rightarrow> ProjectWebSocket \<Rightarrow> ProjectWebSocketConnection \<Rightarrow> Database
     \<Rightarrow> Thrown + (ProjectWebSocket \<times> Database)" where
  "handleStopGeneration now ws connection db =
     (case getByProjectForUser db (conn_projectId connection) (conn_userId connection) of
        None \<Rightarrow> Inr (state_not_found ws, db)
      | Some agentState0 \<Rightarrow>
          if currentState agentState0 \<noteq> js ''generating'' then
            Inr (ws_close
                   (sendErrorMessage ws generation_not_in_progress
                      (js ''Generation not in progress''))
                   4000 (js ''Conflict''),
                 db)
          else
            let agentState =
              agentState0\<lparr>currentState := js ''idle'', generatedFiles := Some [],
                          currentPhase := None\<rparr>
            in (case upsertForProject now db
                       \<lparr>uas_id = state_id agentState,
                        uas_projectId = conn_projectId connection,
                        uas_userId = conn_userId connection,
                        uas_currentState = js ''idle'',
                        uas_sandboxId = None,
                        uas_previewUrl = None,
                        uas_currentPhase = None,
                        uas_phases = Some [],
                        uas_generatedFiles = None,
                        uas_conversationHistory = None\<rparr> of
                  Inl thrown \<Rightarrow> Inl thrown
                | Inr (stopped, db') \<Rightarrow>
                    Inr (sendServerMessage ws
                           (state_update
                              \<lparr>su_currentState = js ''idle'',
                               su_currentPhase = None,
                               su_totalPhases = 0,
                               su_generatedFiles =
                                 (case Option.bind stopped generatedFiles of
                                    Some fs \<Rightarrow> fs
                                  | None \<Rightarrow>
                                      (case generatedFiles agentState of
                                         Some fs \<Rightarrow> fs | None \<Rightarrow> [])),
                               su_previewUrl =
                                 (case Option.bind stopped state_previewUrl of
                                    Some u \<Rightarrow> Some u
                                  | None \<Rightarrow> state_previewUrl agentState)\<rparr>),
                         db')))"

text \<open>
  \<open>handleUserMessage\<close>: \<open>timestamp\<close> is \<open>new Date().toISOString()\<close> at the time of the
  call.
\<close>

definition handleUserMessage ::
  "nat \<Rightarrow> jsstring \<Rightarrow> ProjectWebSocket \<Rightarrow> ProjectWebSocketConnection \<Rightarrow> jsstring \<Rightarrow> Database
     \<Rightarrow> Thrown + (ProjectWebSocket \<times> Database)" where
  "handleUserMessage now isoNow ws connection content' db =
     (case getByProjectForUser db (conn_projectId connection) (conn_userId connection) of
        None \<Rightarrow> Inr (state_not_found ws, db)
      | Some agentState \<Rightarrow>
          let history =
            (case conversationHistory agentState of None \<Rightarrow> [] | Some h \<Rightarrow> h) @
            [\<lparr>role = role_user, content = content', timestamp = isoNow\<rparr>]
          in (case upsertForProject now db
                     \<lparr>uas_id = state_id agentState,
                      uas_projectId = conn_projectId connection,
                      uas_userId = conn_userId connection,
                      uas_currentState = currentState agentState,
                      uas_sandboxId = None,
                      uas_previewUrl = None,
                      uas_currentPhase =
                        map_option (\<lambda>n. Integral (sint n)) (currentPhase agentState),
                      uas_phases = None,
                      uas_generatedFiles = None,
                      uas_conversationHistory = Some history\<rparr> of
                Inl thrown \<Rightarrow> Inl thrown
              | Inr (updatedState, db') \<Rightarrow>
                  let nextPhases =
                        (case Option.bind updatedState phases of
                           Some ps \<Rightarrow> ps
                         | None \<Rightarrow> (case phases agentState of Some ps \<Rightarrow> ps | None \<Rightarrow> []));
                      nextGeneratedFiles =
                        (case Option.bind updatedState generatedFiles of
                           Some fs \<Rightarrow> fs
                         | None \<Rightarrow>
                             (case generatedFiles agentState of Some fs \<Rightarrow> fs | None \<Rightarrow> []));
                      nextPreviewUrl =
                        (case Option.bind updatedState state_previewUrl of
                           Some u \<Rightarrow> Some u
                         | None \<Rightarrow> state_previewUrl agentState)
                  in Inr (sendServerMessage ws
                            (state_update
                               \<lparr>su_currentState =
                                  (case updatedState of
                                     Some u \<Rightarrow> currentState u
                                   | None \<Rightarrow> currentState agentState),
                                su_currentPhase =
                                  map_option sint
                                    (case Option.bind updatedState currentPhase of
                                       Some n \<Rightarrow> Some n
                                     | None \<Rightarrow> currentPhase agentState),
                                su_totalPhases = length nextPhases,
                                su_generatedFiles = nextGeneratedFiles,
                                su_previewUrl = nextPreviewUrl\<rparr>),
                          db')))"

text \<open>
  The lifecycle callbacks. \<open>message\<close> catches whatever its body throws and reports
  \<open>internal_error\<close>; the session cached before the throw stays cached.
\<close>

definition websocketLifecycle_open :: "ProjectWebSocket \<Rightarrow> Server \<Rightarrow> ProjectWebSocket \<times> Server" where
  "websocketLifecycle_open ws srv =
     (case ensureAuthorizedConnection ws srv of
        (None, ws', srv') \<Rightarrow> (ws', srv')
      | (Some connection, ws', srv') \<Rightarrow>
          (sendServerMessage ws' (agent_connected (conn_projectId connection)), srv'))"

definition dispatch ::
  "nat \<Rightarrow> jsstring \<Rightarrow> ProjectWebSocket \<Rightarrow> ProjectWebSocketConnection \<Rightarrow> ValidatedClientMessage
     \<Rightarrow> Database \<Rightarrow> Thrown + (ProjectWebSocket \<times> Database)" where
  "dispatch now isoNow ws connection msg db =
     (case msg of
        Control type _ \<Rightarrow>
          if type = js ''get_state'' then Inr (sendStateUpdate ws connection db, db)
          else if type = js ''get_preview_url'' then Inr (sendPreviewUrl ws connection db, db)
          else if type = js ''start_generation'' then handleStartGeneration now ws connection db
          else if type = js ''stop_generation'' then handleStopGeneration now ws connection db
          else Inr (ws, db)
      | UserMessage content' \<Rightarrow> handleUserMessage now isoNow ws connection content' db)"

definition websocketLifecycle_message ::
  "(8 word list \<Rightarrow> jsstring) \<Rightarrow> (jsstring \<Rightarrow> json option) \<Rightarrow> nat \<Rightarrow> jsstring
     \<Rightarrow> ProjectWebSocket \<Rightarrow> raw_message \<Rightarrow> Server \<Rightarrow> ProjectWebSocket \<times> Server" where
  "websocketLifecycle_message decode parse now isoNow ws rawMessage srv =
     (case ensureAuthorizedConnection ws srv of
        (None, ws', srv') \<Rightarrow> (ws', srv')
      | (Some connection, ws', srv') \<Rightarrow>
          (case validateClientMessage decode parse rawMessage of
             Inl err \<Rightarrow> (sendErrorMessage ws' (code err) (message err), srv')
           | Inr validatedMessage \<Rightarrow>
               (case dispatch now isoNow ws' connection validatedMessage (database srv') of
                  Inl thrown \<Rightarrow>
                    (sendErrorMessage ws' internal_error
                       (js ''Failed to handle websocket message''), srv')
                | Inr (ws'', db') \<Rightarrow> (ws'', srv'\<lparr>database := db'\<rparr>))))"

definition websocketLifecycle_close :: "ProjectWebSocket \<Rightarrow> Server \<Rightarrow> Server" where
  "websocketLifecycle_close ws srv = srv\<lparr>wsConnections := (wsConnections srv)(ws_id ws := None)\<rparr>"

section \<open>A concrete store\<close>

text \<open>
  The rows of the websocket contract test "stops generation ...": one project of
  \<open>alice\<close> with a run state in \<open>generating\<close>; \<open>bob\<close> is another user.
\<close>

definition ex_project :: Project where
  "ex_project =
     \<lparr>project_id = js ''p1'', project_name = js ''Project'', project_description = None,
      project_createdAt = 1, project_updatedAt = 1, project_userId = js ''alice'',
      project_status = js ''idle'', project_previewUrl = None, project_sandboxId = None\<rparr>"

definition ex_state :: AgentState where
  "ex_state =
     \<lparr>state_id = js ''s1'', state_projectId = js ''p1'', currentState = js ''generating'',
      currentPhase = Some 3,
      phases = Some [\<lparr>phase_name = js ''phase-1'', phase_description = js ''base'',
                      phase_files = [\<lparr>phasefile_path = js ''src/main.ts'',
                                      phasefile_purpose = js ''bootstrap''\<rparr>],
                      isLastPhase = False\<rparr>],
      state_sandboxId = Some (js ''sandbox_2''),
      state_previewUrl = Some (js ''http://localhost:5174''),
      generatedFiles = Some [js ''src/main.ts'', js ''src/app.tsx''],
      conversationHistory = Some [\<lparr>role = role_user, content = js ''continue building'',
                                   timestamp = js ''2026-02-09T10:00:00.000Z''\<rparr>],
      state_createdAt = 1, state_updatedAt = 1\<rparr>"

definition ex_db :: Database where
  "ex_db = \<lparr>user = [js ''alice'', js ''bob''], projects = [ex_project], projectFiles = [],
            agent_states = [ex_state]\<rparr>"

definition ex_ws :: ProjectWebSocket where
  "ex_ws = \<lparr>ws_id = js ''ws1'', ws_projectId = js ''p1'', ws_userId = js ''alice'',
            sentMessages = [], closedWith = None\<rparr>"

definition ex_conn :: ProjectWebSocketConnection where
  "ex_conn = \<lparr>connectionId = js ''ws1'', conn_projectId = js ''p1'', conn_userId = js ''alice''\<rparr>"

definition ex_srv :: Server where
  "ex_srv = \<lparr>database = ex_db, wsConnections = [js ''ws1'' \<mapsto> ex_conn]\<rparr>"





text \<open>A \<open>user_message\<close> payload with the given content.\<close>

definition ex_user_message :: "string \<Rightarrow> json" where
  "ex_user_message text =
     JObj [(js ''type'', JStr (js ''user_message'')),
           (js ''data'', JObj [(js ''content'', JStr (js text))])]"

text \<open>A \<open>user_message\<close> payload whose content is \<open>"a\\u0000b"\<close>.\<close>

definition ex_nul_message :: json where
  "ex_nul_message =
     JObj [(js ''type'', JStr (js ''user_message'')),
           (js ''data'', JObj [(js ''content'', JStr [0x61, 0x0, 0x62])])]"

text \<open>A \<open>start_generation\<close> payload.\<close>

definition ex_start_generation :: json where
  "ex_start_generation = JObj [(js ''type'', JStr (js ''start_generation'')), (js ''data'', JObj [])]"

section \<open>Auxiliary notions\<close>

text \<open>The store after the update branch of the agent-state upsert.\<close>

definition merged :: "nat \<Rightarrow> UpsertAgentStateInput \<Rightarrow> Database \<Rightarrow> Database" where
  "merged now input db =
     db\<lparr>agent_states :=
          map (\<lambda>s. if state_projectId s = uas_projectId input then merge_state now input s else s)
            (agent_states db)\<rparr>"


text \<open>
  A stored row whose \<open>currentState\<close> and \<open>conversationHistory\<close> are values that the
  columns hold, as those of every row read from the store are.
\<close>

definition row_accepted :: "AgentState \<Rightarrow> bool" where
  "row_accepted s \<longleftrightarrow>
     text_accepted (currentState s) \<and>
     (case conversationHistory s of None \<Rightarrow> True | Some h \<Rightarrow> jsonb_messages_accepted h)"

text \<open>The inputs that \<open>handleStopGeneration\<close> and \<open>handleUserMessage\<close> pass to the upsert.\<close>

definition stop_input :: "AgentState \<Rightarrow> ProjectWebSocketConnection \<Rightarrow> UpsertAgentStateInput" where
  "stop_input s c =
     \<lparr>uas_id = state_id s, uas_projectId = conn_projectId c, uas_userId = conn_userId c,
      uas_currentState = js ''idle'', uas_sandboxId = None, uas_previewUrl = None,
      uas_currentPhase = None, uas_phases = Some [], uas_generatedFiles = None,
      uas_conversationHistory = None\<rparr>"

definition message_input ::
  "AgentState \<Rightarrow> ProjectWebSocketConnection \<Rightarrow> jsstring \<Rightarrow> jsstring \<Rightarrow> UpsertAgentStateInput" where
  "message_input s c content' isoNow =
     \<lparr>uas_id = state_id s, uas_projectId = conn_projectId c, uas_userId = conn_userId c,
      uas_currentState = currentState s, uas_sandboxId = None, uas_previewUrl = None,
      uas_currentPhase = map_option (\<lambda>n. Integral (sint n)) (currentPhase s), uas_phases = None,
      uas_generatedFiles = None,
      uas_conversationHistory =
        Some ((case conversationHistory s of None \<Rightarrow> [] | Some h \<Rightarrow> h) @
              [\<lparr>role = role_user, content = content', timestamp = isoNow\<rparr>])\<rparr>"

section \<open>Basic facts\<close>


lemma first_row_Cons: "first_row (r # rs) = Some r"
  by (simp add: first_row_def)

lemma first_row_eq_None: "first_row rows = None \<longleftrightarrow> rows = []"
  by (cases rows) (simp_all add: first_row_def)


lemma integer_value_sint: "integer_value (Integral (sint w)) = Some w"
  using sint_ge [of w] sint_lt [of w] by (simp add: integer_value_def)


lemma idle_accepted: "text_accepted (js ''idle'')" "toWellFormed (js ''idle'') = js ''idle''"
  by (simp_all add: text_accepted_def js_def isHighSurrogate_def isLowSurrogate_def)

lemma ex_schema_ok: "schema_ok ex_db"
  by (simp add: schema_ok_def ex_db_def ex_project_def ex_state_def)

lemma ex_access: "canAccessProject ex_db (js ''p1'') (js ''alice'')"
  by (simp add: canAccessProject_def ex_db_def ex_project_def owned_by_def first_row_def)


lemmas store_defs =
  getByIdForUser_def getByProjectForUser_def canAccessProject_def owned_by_def first_row_def
  upsertForProject_def insert_state_onConflictDoUpdate_def merge_state_def Let_def
  state_values_accepted_def text_accepted_def integer_value_def jsonb_string_accepted_def
  jsonb_messages_accepted_def jsonb_phases_accepted_def isHighSurrogate_def isLowSurrogate_def

lemmas socket_defs =
  sendServerMessage_def sendErrorMessage_def ws_close_def access_denied_def state_not_found_def

lemmas ex_defs = ex_db_def ex_project_def ex_state_def ex_ws_def ex_conn_def



section \<open>Command validator: the type and payload checks\<close>

lemma known_types_simp:
  "t \<in> knownClientMessageTypes \<longleftrightarrow>
     t = js ''start_generation'' \<or> t = js ''stop_generation'' \<or> t = js ''user_message'' \<or>
     t = js ''get_state'' \<or> t = js ''get_preview_url''"
  by (auto simp: knownClientMessageTypes_def CLIENT_MESSAGE_TYPES_def)

lemma user_message_type_neq:
  "js ''user_message'' \<noteq> js ''start_generation''"
  "js ''user_message'' \<noteq> js ''stop_generation''"
  "js ''user_message'' \<noteq> js ''get_state''"
  "js ''user_message'' \<noteq> js ''get_preview_url''"
  by (simp_all add: js_def)

lemma validateClientMessage_parsed:
  "parseMessagePayload decode parse raw = Some p \<Longrightarrow>
     validateClientMessage decode parse raw = validateEnvelope p"
  by (simp add: validateClientMessage_def)

lemma toPlainObject_JObj: "toPlainObject (JObj obj) = Some obj"
  by (simp add: toPlainObject_def)

lemma validateEnvelope_unknown:
  \<open>property envelope ''type'' = Some (JStr t) \<Longrightarrow> t \<notin> knownClientMessageTypes \<Longrightarrow>
     validateEnvelope (JObj envelope) =
       Inl \<lparr>code = unknown_message_type, message = js ''Unknown message type "'' @ t @ js ''"''\<rparr>\<close>
  by (simp add: validateEnvelope_def toPlainObject_def toError_def)

lemma validateEnvelope_type_not_string:
  assumes "\<forall>t. property envelope ''type'' \<noteq> Some (JStr t)"
  shows \<open>validateEnvelope (JObj envelope) =
       Inl \<lparr>code = invalid_message, message = js ''WebSocket message "type" must be a string''\<rparr>\<close>
proof (cases "property envelope ''type''")
  case None
  then show ?thesis by (simp add: validateEnvelope_def toPlainObject_def toError_def)
next
  case (Some v)
  with assms show ?thesis
    by (cases v) (simp_all add: validateEnvelope_def toPlainObject_def toError_def)
qed

lemma validateEnvelope_user_message:
  assumes "property envelope ''type'' = Some (JStr (js ''user_message''))"
    and "toPlainObject (case property envelope ''data'' of
                            None \<Rightarrow> JObj [] | Some JNull \<Rightarrow> JObj [] | Some d \<Rightarrow> d) = Some data"
  shows \<open>validateEnvelope (JObj envelope) =
     (case userMessageDataSchema_safeParse data of
        None \<Rightarrow> Inl \<lparr>code = invalid_message_data,
                   message = js ''"user_message" requires data.content as a non-empty string''\<rparr>
      | Some content' \<Rightarrow> Inr (UserMessage content'))\<close>
  using assms
  by (cases "userMessageDataSchema_safeParse data")
     (simp_all add: validateEnvelope_def toPlainObject_JObj toError_def known_types_simp
      user_message_type_neq)

lemma safeParse_Some:
  "userMessageDataSchema_safeParse d = Some c \<longleftrightarrow>
     (\<exists>s. property d ''content'' = Some (JStr s) \<and> trim s \<noteq> [] \<and> c = trim s)"
proof (cases "property d ''content''")
  case None
  then show ?thesis by (simp add: userMessageDataSchema_safeParse_def)
next
  case (Some v)
  then show ?thesis
    by (cases v) (auto simp add: userMessageDataSchema_safeParse_def Suc_le_eq)
qed

lemma safeParse_None:
  "userMessageDataSchema_safeParse d = None \<longleftrightarrow>
     \<not> (\<exists>s. property d ''content'' = Some (JStr s) \<and> trim s \<noteq> [])"
  using safeParse_Some [of d] by (cases "userMessageDataSchema_safeParse d") auto

text \<open>
  C6 (as amended). For a payload that parses as an object: when its \<open>type\<close> is a string
  outside the five command names, \<open>validateClientMessage\<close> returns the error
  \<open>unknown_message_type\<close> whose message quotes that string; when \<open>type\<close> is missing or
  not a string, it returns the error \<open>invalid_message\<close>.
\<close>

theorem validate_type_field:
  assumes "parseMessagePayload decode parse raw = Some (JObj envelope)"
  shows \<open>(\<forall>t. property envelope ''type'' = Some (JStr t) \<and> t \<notin> set CLIENT_MESSAGE_TYPES \<longrightarrow>
            validateClientMessage decode parse raw =
              Inl \<lparr>code = unknown_message_type,
                   message = js ''Unknown message type "'' @ t @ js ''"''\<rparr>) \<and>
         ((\<forall>t. property envelope ''type'' \<noteq> Some (JStr t)) \<longrightarrow>
            validateClientMessage decode parse raw =
              Inl \<lparr>code = invalid_message,
                   message = js ''WebSocket message "type" must be a string''\<rparr>)\<close>
  by (simp add: validateClientMessage_parsed [OF assms] validateEnvelope_unknown
      validateEnvelope_type_not_string knownClientMessageTypes_def)

theorem validate_type_field_witness:
  \<open>parseMessagePayload (\<lambda>b. []) (\<lambda>s. None)
      (Val (JObj [(js ''type'', JStr (js ''totally_unknown'')), (js ''data'', JObj [])])) =
     Some (JObj [(js ''type'', JStr (js ''totally_unknown'')), (js ''data'', JObj [])]) \<and>
   property [(js ''type'', JStr (js ''totally_unknown'')), (js ''data'', JObj [])] ''type'' =
     Some (JStr (js ''totally_unknown'')) \<and>
   js ''totally_unknown'' \<notin> set CLIENT_MESSAGE_TYPES \<and>
   validateClientMessage (\<lambda>b. []) (\<lambda>s. None)
      (Val (JObj [(js ''type'', JStr (js ''totally_unknown'')), (js ''data'', JObj [])])) =
     Inl \<lparr>code = unknown_message_type,
          message = js ''Unknown message type "totally_unknown"''\<rparr> \<and>
   parseMessagePayload (\<lambda>b. []) (\<lambda>s. None) (Val (JObj [(js ''data'', JObj [])])) =
     Some (JObj [(js ''data'', JObj [])]) \<and>
   (\<forall>t. property [(js ''data'', JObj [])] ''type'' \<noteq> Some (JStr t)) \<and>
   validateClientMessage (\<lambda>b. []) (\<lambda>s. None) (Val (JObj [(js ''data'', JObj [])])) =
     Inl \<lparr>code = invalid_message, message = js ''WebSocket message "type" must be a string''\<rparr>\<close>
proof -
  let ?e = "[(js ''type'', JStr (js ''totally_unknown'')), (js ''data'', JObj [])]"
  let ?e' = "[(js ''data'', JObj [])]"
  have h1: "parseMessagePayload (\<lambda>b. []) (\<lambda>s. None) (Val (JObj ?e)) = Some (JObj ?e)"
    by (simp add: parseMessagePayload_def decodeIfBinary_def)
  have h2: "property ?e ''type'' = Some (JStr (js ''totally_unknown''))"
    by (simp add: property_def)
  have h3: "js ''totally_unknown'' \<notin> set CLIENT_MESSAGE_TYPES"
    by (simp add: CLIENT_MESSAGE_TYPES_def js_def)
  have h4: "parseMessagePayload (\<lambda>b. []) (\<lambda>s. None) (Val (JObj ?e')) = Some (JObj ?e')"
    by (simp add: parseMessagePayload_def decodeIfBinary_def)
  have h5: "\<forall>t. property ?e' ''type'' \<noteq> Some (JStr t)"
    by (simp add: property_def js_def)
  have m: \<open>js ''Unknown message type "'' @ js ''totally_unknown'' @ js ''"'' =
           js ''Unknown message type "totally_unknown"''\<close>
    by (simp add: js_def)
  from validate_type_field [OF h1] h2 h3
  have a: \<open>validateClientMessage (\<lambda>b. []) (\<lambda>s. None) (Val (JObj ?e)) =
     Inl \<lparr>code = unknown_message_type,
          message = js ''Unknown message type "totally_unknown"''\<rparr>\<close>
    unfolding m [symmetric] by blast
  from validate_type_field [OF h4] h5
  have b: \<open>validateClientMessage (\<lambda>b. []) (\<lambda>s. None) (Val (JObj ?e')) =
     Inl \<lparr>code = invalid_message, message = js ''WebSocket message "type" must be a string''\<rparr>\<close>
    by blast
  from h1 h2 h3 h4 h5 a b show ?thesis by blast
qed

text \<open>
  The claim as first stated (a missing or non-string \<open>type\<close> gives
  \<open>unknown_message_type\<close>) fails on the payloads \<open>{}\<close> and \<open>{"type": 42}\<close>.
\<close>

theorem validate_type_field_counterexample:
  \<open>validateClientMessage (\<lambda>b. []) (\<lambda>s. None) (Val (JObj [])) =
     Inl \<lparr>code = invalid_message, message = js ''WebSocket message "type" must be a string''\<rparr> \<and>
   validateClientMessage (\<lambda>b. []) (\<lambda>s. None) (Val (JObj [(js ''type'', JNum 42)])) =
     Inl \<lparr>code = invalid_message, message = js ''WebSocket message "type" must be a string''\<rparr>\<close>
  by (simp add: validateClientMessage_def validateEnvelope_def toPlainObject_def toError_def
      parseMessagePayload_def decodeIfBinary_def property_def)

text \<open>
  C8. For a payload that parses as an object with \<open>type = "user_message"\<close> and a
  \<open>data\<close> that is an object (or absent, or \<open>null\<close>): validation succeeds iff
  \<open>data.content\<close> is a string that is non-empty after trimming, and otherwise the result
  is the error \<open>invalid_message_data\<close>.
\<close>

theorem validate_user_message:
  assumes "parseMessagePayload decode parse raw = Some (JObj envelope)"
    and "property envelope ''type'' = Some (JStr (js ''user_message''))"
    and "toPlainObject (case property envelope ''data'' of
                          None \<Rightarrow> JObj [] | Some JNull \<Rightarrow> JObj [] | Some d \<Rightarrow> d) = Some data"
  shows \<open>((\<exists>v. validateClientMessage decode parse raw = Inr v) \<longleftrightarrow>
            (\<exists>s. property data ''content'' = Some (JStr s) \<and> trim s \<noteq> [])) \<and>
         ((\<nexists>v. validateClientMessage decode parse raw = Inr v) \<longrightarrow>
            validateClientMessage decode parse raw =
              Inl \<lparr>code = invalid_message_data,
                   message = js ''"user_message" requires data.content as a non-empty string''\<rparr>)\<close>
proof (cases "userMessageDataSchema_safeParse data")
  case None
  then have \<open>validateClientMessage decode parse raw =
              Inl \<lparr>code = invalid_message_data,
                   message = js ''"user_message" requires data.content as a non-empty string''\<rparr>\<close>
    by (simp add: validateClientMessage_parsed [OF assms(1)]
        validateEnvelope_user_message [OF assms(2,3)])
  moreover from None have "\<not> (\<exists>s. property data ''content'' = Some (JStr s) \<and> trim s \<noteq> [])"
    using safeParse_None [of data] by blast
  ultimately show ?thesis by simp
next
  case (Some c)
  then have "validateClientMessage decode parse raw = Inr (UserMessage c)"
    by (simp add: validateClientMessage_parsed [OF assms(1)]
        validateEnvelope_user_message [OF assms(2,3)])
  moreover from Some have "\<exists>s. property data ''content'' = Some (JStr s) \<and> trim s \<noteq> []"
    by (auto simp: safeParse_Some)
  ultimately show ?thesis by simp
qed

theorem validate_user_message_witness:
  \<open>parseMessagePayload (\<lambda>b. []) (\<lambda>s. None) (Val (ex_user_message ''   '')) =
     Some (JObj [(js ''type'', JStr (js ''user_message'')),
                 (js ''data'', JObj [(js ''content'', JStr (js ''   ''))])]) \<and>
   property [(js ''type'', JStr (js ''user_message'')),
             (js ''data'', JObj [(js ''content'', JStr (js ''   ''))])] ''type'' =
     Some (JStr (js ''user_message'')) \<and>
   toPlainObject (JObj [(js ''content'', JStr (js ''   ''))]) =
     Some [(js ''content'', JStr (js ''   ''))] \<and>
   trim (js ''   '') = [] \<and>
   validateClientMessage (\<lambda>b. []) (\<lambda>s. None) (Val (ex_user_message ''   '')) =
     Inl \<lparr>code = invalid_message_data,
          message = js ''"user_message" requires data.content as a non-empty string''\<rparr> \<and>
   trim (js ''hello'') = js ''hello'' \<and>
   (\<exists>v. validateClientMessage (\<lambda>b. []) (\<lambda>s. None) (Val (ex_user_message ''hello'')) = Inr v)\<close>
proof -
  let ?d' = "[(js ''content'', JStr (js ''hello''))]"
  let ?e' = "[(js ''type'', JStr (js ''user_message'')), (js ''data'', JObj ?d')]"
  have g1: "parseMessagePayload (\<lambda>b. []) (\<lambda>s. None) (Val (ex_user_message ''hello'')) =
            Some (JObj ?e')"
    by (simp add: parseMessagePayload_def decodeIfBinary_def ex_user_message_def)
  have g2: "property ?e' ''type'' = Some (JStr (js ''user_message''))"
    by (simp add: property_def)
  have g3: "toPlainObject (case property ?e' ''data'' of
                          None \<Rightarrow> JObj [] | Some JNull \<Rightarrow> JObj [] | Some d \<Rightarrow> d) = Some ?d'"
    by (simp add: property_def toPlainObject_def js_def)
  have t': "trim (js ''hello'') = js ''hello''"
    by (simp add: trim_def js_def isWhiteSpace_def)
  have y: "\<exists>s. property ?d' ''content'' = Some (JStr s) \<and> trim s \<noteq> []"
    by (simp add: property_def t') (simp add: js_def)
  from validate_user_message [OF g1 g2 g3] y
  have ok: "\<exists>v. validateClientMessage (\<lambda>b. []) (\<lambda>s. None) (Val (ex_user_message ''hello'')) = Inr v"
    by blast
  let ?d = "[(js ''content'', JStr (js ''   ''))]"
  let ?e = "[(js ''type'', JStr (js ''user_message'')), (js ''data'', JObj ?d)]"
  have h1: "parseMessagePayload (\<lambda>b. []) (\<lambda>s. None) (Val (ex_user_message ''   '')) =
            Some (JObj ?e)"
    by (simp add: parseMessagePayload_def decodeIfBinary_def ex_user_message_def)
  have h2: "property ?e ''type'' = Some (JStr (js ''user_message''))"
    by (simp add: property_def)
  have h3: "toPlainObject (case property ?e ''data'' of
                          None \<Rightarrow> JObj [] | Some JNull \<Rightarrow> JObj [] | Some d \<Rightarrow> d) = Some ?d"
    by (simp add: property_def toPlainObject_def js_def)
  have t: "trim (js ''   '') = []"
    by (simp add: trim_def js_def isWhiteSpace_def)
  have c: "property ?d ''content'' = Some (JStr (js ''   ''))"
    by (simp add: property_def)
  have n: "\<not> (\<exists>s. property ?d ''content'' = Some (JStr s) \<and> trim s \<noteq> [])"
    using t by (simp add: c)
  from validate_user_message [OF h1 h2 h3] n
  have \<open>validateClientMessage (\<lambda>b. []) (\<lambda>s. None) (Val (ex_user_message ''   '')) =
     Inl \<lparr>code = invalid_message_data,
          message = js ''"user_message" requires data.content as a non-empty string''\<rparr>\<close>
    by blast
  with h1 h2 t t' ok show ?thesis by (simp add: toPlainObject_def)
qed

section \<open>Ownership scoping of the project repository\<close>








section \<open>Run state: the merge-patch upsert\<close>

lemma filter_key_unique:
  "distinct (map f xs) \<Longrightarrow> x \<in> set xs \<Longrightarrow> filter (\<lambda>y. f y = f x) xs = [x]"
proof (induction xs)
  case Nil
  then show ?case by simp
next
  case (Cons a xs)
  show ?case
  proof (cases "a = x")
    case True
    with Cons.prems have "\<forall>y \<in> set xs. f y \<noteq> f x" by (auto simp: image_iff)
    then have "filter (\<lambda>y. f y = f x) xs = []" by (simp add: filter_empty_conv)
    with True show ?thesis by simp
  next
    case False
    with Cons.prems have "x \<in> set xs" and "f a \<noteq> f x" by auto
    with Cons show ?thesis by simp
  qed
qed

lemma filter_key_update:
  assumes "distinct (map f xs)" and "x \<in> set xs" and "\<And>y. f (g y) = f y"
  shows "filter (\<lambda>y. f y = f x) (map (\<lambda>y. if f y = f x then g y else y) xs) = [g x]"
proof -
  have "filter (\<lambda>y. f y = f x) (map (\<lambda>y. if f y = f x then g y else y) xs) =
        map (\<lambda>y. if f y = f x then g y else y) (filter (\<lambda>y. f y = f x) xs)"
    by (induction xs) (simp_all add: assms(3))
  also have "\<dots> = [g x]"
    by (simp add: filter_key_unique [OF assms(1,2)])
  finally show ?thesis .
qed

lemma canAccessProject_iff:
  "canAccessProject db pid uid \<longleftrightarrow> (\<exists>p \<in> set (projects db). owned_by pid uid p)"
  by (auto simp: canAccessProject_def first_row_eq_None filter_empty_conv)

lemma getByProjectForUser_owned:
  assumes "canAccessProject db pid uid"
  shows "getByProjectForUser db pid uid =
         first_row (filter (\<lambda>s. state_projectId s = pid) (agent_states db))"
proof -
  have "filter (\<lambda>s. state_projectId s = pid \<and>
                    (\<exists>p \<in> set (projects db). owned_by (state_projectId s) uid p))
          (agent_states db) = filter (\<lambda>s. state_projectId s = pid) (agent_states db)"
    using assms by (intro filter_cong) (auto simp: canAccessProject_iff)
  then show ?thesis by (simp add: getByProjectForUser_def)
qed

lemma getByProjectForUser_row:
  assumes "schema_ok db" and "canAccessProject db pid uid"
    and "s \<in> set (agent_states db)" and "state_projectId s = pid"
  shows "getByProjectForUser db pid uid = Some s"
proof -
  have "distinct (map state_projectId (agent_states db))"
    using assms(1) by (simp add: schema_ok_def)
  from filter_key_unique [OF this assms(3)] assms(2,4) show ?thesis
    by (simp add: getByProjectForUser_owned first_row_Cons)
qed

lemma getByProjectForUser_none:
  assumes "\<forall>s \<in> set (agent_states db). state_projectId s \<noteq> pid"
  shows "getByProjectForUser db pid uid = None"
  using assms by (simp add: getByProjectForUser_def first_row_eq_None filter_empty_conv)

lemma merge_state_projectId: "state_projectId (merge_state now input s) = state_projectId s"
  by (simp add: merge_state_def)

lemma upsertForProject_refused:
  assumes "canAccessProject db (uas_projectId input) (uas_userId input)"
    and "\<not> state_values_accepted input"
  shows "upsertForProject now db input = Inl (DrizzleQueryError data_exception)"
  using assms by (simp add: upsertForProject_def insert_state_onConflictDoUpdate_def)

lemma upsertForProject_existing:
  assumes "schema_ok db" and "s \<in> set (agent_states db)"
    and "state_projectId s = uas_projectId input"
    and "canAccessProject db (uas_projectId input) (uas_userId input)"
    and "state_values_accepted input"
  shows "upsertForProject now db input = Inr (Some (merge_state now input s), merged now input db)"
proof -
  have d: "distinct (map state_projectId (agent_states db))"
    using assms(1) by (simp add: schema_ok_def)
  have ex: "\<exists>r \<in> set (agent_states db). state_projectId r = uas_projectId input"
    using assms(2,3) by blast
  have "filter (\<lambda>r. state_projectId r = state_projectId s)
          (map (\<lambda>r. if state_projectId r = state_projectId s then merge_state now input r else r)
             (agent_states db)) = [merge_state now input s]"
    by (rule filter_key_update [OF d assms(2)]) (rule merge_state_projectId)
  with ex assms(3,4,5) show ?thesis
    by (simp add: upsertForProject_def insert_state_onConflictDoUpdate_def Let_def merged_def
        first_row_Cons)
qed

lemma merged_row:
  assumes "schema_ok db" and "s \<in> set (agent_states db)"
    and "state_projectId s = uas_projectId input"
  shows "filter (\<lambda>r. state_projectId r = uas_projectId input) (agent_states (merged now input db)) =
         [merge_state now input s]"
proof -
  have d: "distinct (map state_projectId (agent_states db))"
    using assms(1) by (simp add: schema_ok_def)
  have "filter (\<lambda>r. state_projectId r = state_projectId s)
          (map (\<lambda>r. if state_projectId r = state_projectId s then merge_state now input r else r)
             (agent_states db)) = [merge_state now input s]"
    by (rule filter_key_update [OF d assms(2)]) (rule merge_state_projectId)
  with assms(3) show ?thesis by (simp add: merged_def)
qed

lemma merged_projects: "projects (merged now input db) = projects db"
  by (simp add: merged_def)

lemma merged_get:
  assumes "schema_ok db" and "s \<in> set (agent_states db)"
    and "state_projectId s = uas_projectId input"
    and "canAccessProject db (uas_projectId input) (uas_userId input)"
  shows "getByProjectForUser (merged now input db) (uas_projectId input) (uas_userId input) =
         Some (merge_state now input s)"
proof -
  have "canAccessProject (merged now input db) (uas_projectId input) (uas_userId input)"
    using assms(4) by (simp add: canAccessProject_def merged_projects)
  then show ?thesis
    by (simp add: getByProjectForUser_owned merged_row [OF assms(1-3)] first_row_Cons)
qed





section \<open>Bulk upsert of project files\<close>











section \<open>Duplicate keys\<close>







section \<open>Session controller: the guarded transitions\<close>

lemma getByIdForUser_owned:
  "canAccessProject db pid uid \<Longrightarrow> \<exists>P. getByIdForUser db pid uid = Some P"
  by (simp add: canAccessProject_def getByIdForUser_def)

lemma canAccessProject_row:
  "P \<in> set (projects db) \<Longrightarrow> owned_by pid uid P \<Longrightarrow> canAccessProject db pid uid"
  by (auto simp: canAccessProject_iff)

lemma handleStartGeneration_conflict:
  assumes "schema_ok db" and "canAccessProject db (conn_projectId c) (conn_userId c)"
    and "s \<in> set (agent_states db)" and "state_projectId s = conn_projectId c"
    and "currentState s = js ''generating''"
  shows "handleStartGeneration now ws c db =
           Inr (ws\<lparr>sentMessages := sentMessages ws @
                      [error \<lparr>code = generation_in_progress,
                              message = js ''Generation already in progress''\<rparr>],
                    closedWith := Some (4000, js ''Conflict'')\<rparr>, db)"
proof -
  obtain P where "getByIdForUser db (conn_projectId c) (conn_userId c) = Some P"
    using getByIdForUser_owned [OF assms(2)] by blast
  moreover have "getByProjectForUser db (conn_projectId c) (conn_userId c) = Some s"
    using assms(1-4) by (rule getByProjectForUser_row)
  ultimately show ?thesis
    using assms(5)
    by (simp add: handleStartGeneration_def ws_close_def sendErrorMessage_def
        sendServerMessage_def)
qed

lemma handlers_without_state:
  assumes "canAccessProject db (conn_projectId c) (conn_userId c)"
    and "\<forall>s \<in> set (agent_states db). state_projectId s \<noteq> conn_projectId c"
  shows "handleStartGeneration now ws c db = Inr (state_not_found ws, db)"
    and "handleUserMessage now isoNow ws c text db = Inr (state_not_found ws, db)"
proof -
  obtain P where "getByIdForUser db (conn_projectId c) (conn_userId c) = Some P"
    using getByIdForUser_owned [OF assms(1)] by blast
  moreover have "getByProjectForUser db (conn_projectId c) (conn_userId c) = None"
    using assms(2) by (rule getByProjectForUser_none)
  ultimately show "handleStartGeneration now ws c db = Inr (state_not_found ws, db)"
    and "handleUserMessage now isoNow ws c text db = Inr (state_not_found ws, db)"
    by (simp_all add: handleStartGeneration_def handleUserMessage_def)
qed

lemma state_not_found_eq:
  "state_not_found ws =
     ws\<lparr>sentMessages := sentMessages ws @
           [error \<lparr>code = internal_error, message = js ''Agent state not found''\<rparr>],
        closedWith := Some (4004, js ''Not Found'')\<rparr>"
  by (simp add: state_not_found_def ws_close_def sendErrorMessage_def sendServerMessage_def)

lemma stop_input_accepted: "state_values_accepted (stop_input s c)"
  by (simp add: state_values_accepted_def stop_input_def idle_accepted jsonb_phases_accepted_def)

lemma handleStopGeneration_generating:
  assumes "schema_ok db" and "canAccessProject db (conn_projectId c) (conn_userId c)"
    and "s \<in> set (agent_states db)" and "state_projectId s = conn_projectId c"
    and "currentState s = js ''generating''"
  shows "handleStopGeneration now ws c db =
           Inr (ws\<lparr>sentMessages := sentMessages ws @
                      [state_update
                         \<lparr>su_currentState = js ''idle'', su_currentPhase = None,
                          su_totalPhases = 0,
                          su_generatedFiles =
                            (case generatedFiles s of Some fs \<Rightarrow> fs | None \<Rightarrow> []),
                          su_previewUrl = state_previewUrl s\<rparr>]\<rparr>,
                merged now (stop_input s c) db)"
proof -
  have g: "getByProjectForUser db (conn_projectId c) (conn_userId c) = Some s"
    using assms(1-4) by (rule getByProjectForUser_row)
  have u: "upsertForProject now db (stop_input s c) =
             Inr (Some (merge_state now (stop_input s c) s), merged now (stop_input s c) db)"
    using assms(1-4) stop_input_accepted [of s c]
    by (intro upsertForProject_existing) (simp_all add: stop_input_def)
  have m: "generatedFiles (merge_state now (stop_input s c) s) = generatedFiles s"
    "state_previewUrl (merge_state now (stop_input s c) s) = state_previewUrl s"
    by (simp_all add: merge_state_def stop_input_def)
  show ?thesis
    using assms(5) g u [unfolded stop_input_def] m [unfolded stop_input_def]
    by (simp add: handleStopGeneration_def Let_def sendServerMessage_def stop_input_def
        split: option.splits)
qed

text \<open>
  C2 (as amended). For a RunState row \<open>s\<close> in state \<open>generating\<close>, of a project the
  connection's user owns, \<open>handleStopGeneration\<close> succeeds and leaves one row \<open>s'\<close> for
  the project with \<open>currentState = idle\<close>, \<open>currentPhase = null\<close> and \<open>phases = []\<close>,
  while \<open>generatedFiles\<close>, \<open>previewUrl\<close>, \<open>sandboxId\<close> and \<open>conversationHistory\<close> are
  exactly those of \<open>s\<close>; the socket is not closed.
\<close>

theorem stop_generation_persisted:
  assumes "schema_ok db" and "canAccessProject db (conn_projectId c) (conn_userId c)"
    and "s \<in> set (agent_states db)" and "state_projectId s = conn_projectId c"
    and "currentState s = js ''generating''"
  shows "\<exists>ws' db' s'.
           handleStopGeneration now ws c db = Inr (ws', db') \<and>
           closedWith ws' = closedWith ws \<and>
           filter (\<lambda>r. state_projectId r = conn_projectId c) (agent_states db') = [s'] \<and>
           getByProjectForUser db' (conn_projectId c) (conn_userId c) = Some s' \<and>
           currentState s' = js ''idle'' \<and>
           currentPhase s' = None \<and>
           phases s' = Some [] \<and>
           generatedFiles s' = generatedFiles s \<and>
           state_previewUrl s' = state_previewUrl s \<and>
           state_sandboxId s' = state_sandboxId s \<and>
           conversationHistory s' = conversationHistory s"
proof (intro exI conjI)
  show "handleStopGeneration now ws c db =
          Inr (ws\<lparr>sentMessages := sentMessages ws @
                     [state_update
                        \<lparr>su_currentState = js ''idle'', su_currentPhase = None,
                         su_totalPhases = 0,
                         su_generatedFiles =
                           (case generatedFiles s of Some fs \<Rightarrow> fs | None \<Rightarrow> []),
                         su_previewUrl = state_previewUrl s\<rparr>]\<rparr>,
               merged now (stop_input s c) db)"
    using assms by (rule handleStopGeneration_generating)
  have p: "state_projectId s = uas_projectId (stop_input s c)"
    using assms(4) by (simp add: stop_input_def)
  have a: "canAccessProject db (uas_projectId (stop_input s c)) (uas_userId (stop_input s c))"
    using assms(2) by (simp add: stop_input_def)
  from merged_row [OF assms(1,3) p, of now]
  show "filter (\<lambda>r. state_projectId r = conn_projectId c)
          (agent_states (merged now (stop_input s c) db)) =
        [merge_state now (stop_input s c) s]"
    by (simp add: stop_input_def)
  from merged_get [OF assms(1,3) p a, of now]
  show "getByProjectForUser (merged now (stop_input s c) db) (conn_projectId c) (conn_userId c) =
        Some (merge_state now (stop_input s c) s)"
    by (simp add: stop_input_def)
qed (simp_all add: merge_state_def stop_input_def idle_accepted)

theorem stop_generation_persisted_witness:
  "schema_ok ex_db \<and> canAccessProject ex_db (conn_projectId ex_conn) (conn_userId ex_conn) \<and>
   ex_state \<in> set (agent_states ex_db) \<and> state_projectId ex_state = conn_projectId ex_conn \<and>
   currentState ex_state = js ''generating'' \<and>
   (\<exists>ws' db' s'.
      handleStopGeneration 5 ex_ws ex_conn ex_db = Inr (ws', db') \<and>
      getByProjectForUser db' (js ''p1'') (js ''alice'') = Some s' \<and>
      currentState s' = js ''idle'' \<and> currentPhase s' = None \<and> phases s' = Some [] \<and>
      generatedFiles s' = Some [js ''src/main.ts'', js ''src/app.tsx''] \<and>
      state_previewUrl s' = Some (js ''http://localhost:5174'') \<and>
      state_sandboxId s' = Some (js ''sandbox_2''))"
proof -
  have h1: "schema_ok ex_db" by (rule ex_schema_ok)
  have h2: "canAccessProject ex_db (conn_projectId ex_conn) (conn_userId ex_conn)"
    using ex_access by (simp add: ex_conn_def)
  have h3: "ex_state \<in> set (agent_states ex_db)" by (simp add: ex_db_def)
  have h4: "state_projectId ex_state = conn_projectId ex_conn"
    by (simp add: ex_state_def ex_conn_def)
  have h5: "currentState ex_state = js ''generating''" by (simp add: ex_state_def)
  have c: "conn_projectId ex_conn = js ''p1''" "conn_userId ex_conn = js ''alice''"
    by (simp_all add: ex_conn_def)
  have v: "generatedFiles ex_state = Some [js ''src/main.ts'', js ''src/app.tsx'']"
    "state_previewUrl ex_state = Some (js ''http://localhost:5174'')"
    "state_sandboxId ex_state = Some (js ''sandbox_2'')"
    by (simp_all add: ex_state_def)
  from stop_generation_persisted [OF h1 h2 h3 h4 h5, of 5 ex_ws]
  have "\<exists>ws' db' s'.
      handleStopGeneration 5 ex_ws ex_conn ex_db = Inr (ws', db') \<and>
      getByProjectForUser db' (js ''p1'') (js ''alice'') = Some s' \<and>
      currentState s' = js ''idle'' \<and> currentPhase s' = None \<and> phases s' = Some [] \<and>
      generatedFiles s' = Some [js ''src/main.ts'', js ''src/app.tsx''] \<and>
      state_previewUrl s' = Some (js ''http://localhost:5174'') \<and>
      state_sandboxId s' = Some (js ''sandbox_2'')"
    unfolding c v by blast
  with h1 h2 h3 h4 h5 show ?thesis by blast
qed

text \<open>
  The claim as first stated (stop clears \<open>generatedFiles\<close> and keeps \<open>phases\<close>) fails on
  the rows of the contract test: the stored \<open>generatedFiles\<close> stay, \<open>phases\<close> becomes
  \<open>[]\<close>.
\<close>

theorem stop_generation_counterexample:
  "currentState ex_state = js ''generating'' \<and>
   generatedFiles ex_state = Some [js ''src/main.ts'', js ''src/app.tsx''] \<and>
   phases ex_state \<noteq> Some [] \<and>
   handleStopGeneration 5 ex_ws ex_conn ex_db =
     Inr (ex_ws\<lparr>sentMessages :=
                  [state_update
                     \<lparr>su_currentState = js ''idle'', su_currentPhase = None, su_totalPhases = 0,
                      su_generatedFiles = [js ''src/main.ts'', js ''src/app.tsx''],
                      su_previewUrl = Some (js ''http://localhost:5174'')\<rparr>]\<rparr>,
          ex_db\<lparr>agent_states :=
                  [ex_state\<lparr>currentState := js ''idle'', currentPhase := None,
                            phases := Some [], state_updatedAt := 5\<rparr>]\<rparr>)"
  by (simp add: handleStopGeneration_def store_defs socket_defs ex_defs js_def)

lemma ensureAuthorizedConnection_cached:
  "wsConnections srv (ws_id ws) = Some c \<Longrightarrow> ensureAuthorizedConnection ws srv = (Some c, ws, srv)"
  by (simp add: ensureAuthorizedConnection_def)

lemma message_start_generation:
  assumes "wsConnections srv (ws_id ws) = Some c"
    and "validateClientMessage decode parse raw = Inr (Control (js ''start_generation'') d)"
    and "handleStartGeneration now ws c (database srv) = Inr (ws', database srv)"
  shows "websocketLifecycle_message decode parse now isoNow ws raw srv = (ws', srv)"
  using assms
  by (simp add: websocketLifecycle_message_def ensureAuthorizedConnection_cached dispatch_def
      js_def)

lemma ex_start_valid:
  "validateClientMessage (\<lambda>b. []) (\<lambda>s. None) (Val ex_start_generation) =
     Inr (Control (js ''start_generation'') [])"
  by (simp add: validateClientMessage_def parseMessagePayload_def decodeIfBinary_def
      ex_start_generation_def validateEnvelope_def toPlainObject_def property_def
      known_types_simp) (simp add: js_def)

text \<open>
  C4. When the project of the connection has a persisted RunState in state
  \<open>generating\<close>, \<open>handleStartGeneration\<close> sends the error \<open>generation_in_progress\<close>,
  closes the socket with code 4000, and returns the store as it was; so does the message
  callback on a \<open>start_generation\<close> command of that connection, which leaves the whole
  server state as it was.
\<close>

theorem start_generation_in_progress:
  assumes "schema_ok db" and "canAccessProject db (conn_projectId c) (conn_userId c)"
    and "s \<in> set (agent_states db)" and "state_projectId s = conn_projectId c"
    and "currentState s = js ''generating''"
  shows "handleStartGeneration now ws c db =
           Inr (ws\<lparr>sentMessages := sentMessages ws @
                      [error \<lparr>code = generation_in_progress,
                              message = js ''Generation already in progress''\<rparr>],
                    closedWith := Some (4000, js ''Conflict'')\<rparr>, db) \<and>
         (\<forall>srv decode parse raw d.
            database srv = db \<and> wsConnections srv (ws_id ws) = Some c \<and>
            validateClientMessage decode parse raw = Inr (Control (js ''start_generation'') d) \<longrightarrow>
            websocketLifecycle_message decode parse now isoNow ws raw srv =
              (ws\<lparr>sentMessages := sentMessages ws @
                      [error \<lparr>code = generation_in_progress,
                              message = js ''Generation already in progress''\<rparr>],
                    closedWith := Some (4000, js ''Conflict'')\<rparr>, srv))"
proof -
  let ?ws' = "ws\<lparr>sentMessages := sentMessages ws @
                      [error \<lparr>code = generation_in_progress,
                              message = js ''Generation already in progress''\<rparr>],
                    closedWith := Some (4000, js ''Conflict'')\<rparr>"
  have h: "handleStartGeneration now ws c db = Inr (?ws', db)"
    using assms by (rule handleStartGeneration_conflict)
  have "websocketLifecycle_message decode parse now isoNow ws raw srv = (?ws', srv)"
    if "database srv = db" "wsConnections srv (ws_id ws) = Some c"
      "validateClientMessage decode parse raw = Inr (Control (js ''start_generation'') d)"
    for srv decode parse raw d
    using that(2,3) h [folded that(1)] by (rule message_start_generation)
  with h show ?thesis by blast
qed

theorem start_generation_in_progress_witness:
  "schema_ok ex_db \<and> canAccessProject ex_db (conn_projectId ex_conn) (conn_userId ex_conn) \<and>
   ex_state \<in> set (agent_states ex_db) \<and> state_projectId ex_state = conn_projectId ex_conn \<and>
   currentState ex_state = js ''generating'' \<and>
   database ex_srv = ex_db \<and> wsConnections ex_srv (ws_id ex_ws) = Some ex_conn \<and>
   validateClientMessage (\<lambda>b. []) (\<lambda>s. None) (Val ex_start_generation) =
     Inr (Control (js ''start_generation'') []) \<and>
   handleStartGeneration 5 ex_ws ex_conn ex_db =
     Inr (ex_ws\<lparr>sentMessages :=
                  [error \<lparr>code = generation_in_progress,
                          message = js ''Generation already in progress''\<rparr>],
                closedWith := Some (4000, js ''Conflict'')\<rparr>, ex_db) \<and>
   websocketLifecycle_message (\<lambda>b. []) (\<lambda>s. None) 5 (js ''2026-02-09T10:05:00.000Z'') ex_ws
       (Val ex_start_generation) ex_srv =
     (ex_ws\<lparr>sentMessages :=
              [error \<lparr>code = generation_in_progress,
                      message = js ''Generation already in progress''\<rparr>],
            closedWith := Some (4000, js ''Conflict'')\<rparr>, ex_srv)"
proof -
  have h1: "schema_ok ex_db" by (rule ex_schema_ok)
  have h2: "canAccessProject ex_db (conn_projectId ex_conn) (conn_userId ex_conn)"
    using ex_access by (simp add: ex_conn_def)
  have h3: "ex_state \<in> set (agent_states ex_db)" by (simp add: ex_db_def)
  have h4: "state_projectId ex_state = conn_projectId ex_conn"
    by (simp add: ex_state_def ex_conn_def)
  have h5: "currentState ex_state = js ''generating''" by (simp add: ex_state_def)
  have h6: "database ex_srv = ex_db" "wsConnections ex_srv (ws_id ex_ws) = Some ex_conn"
    by (simp_all add: ex_srv_def ex_ws_def)
  have w: "sentMessages ex_ws = []" by (simp add: ex_ws_def)
  note t = start_generation_in_progress [OF h1 h2 h3 h4 h5, of 5 ex_ws
      "js ''2026-02-09T10:05:00.000Z''"]
  from t have a: "handleStartGeneration 5 ex_ws ex_conn ex_db =
     Inr (ex_ws\<lparr>sentMessages :=
                  [error \<lparr>code = generation_in_progress,
                          message = js ''Generation already in progress''\<rparr>],
                closedWith := Some (4000, js ''Conflict'')\<rparr>, ex_db)"
    by (simp add: w)
  from t h6 ex_start_valid
  have b: "websocketLifecycle_message (\<lambda>b. []) (\<lambda>s. None) 5 (js ''2026-02-09T10:05:00.000Z'') ex_ws
       (Val ex_start_generation) ex_srv =
     (ex_ws\<lparr>sentMessages :=
              [error \<lparr>code = generation_in_progress,
                      message = js ''Generation already in progress''\<rparr>],
            closedWith := Some (4000, js ''Conflict'')\<rparr>, ex_srv)"
    unfolding w by (metis append_Nil)
  from h1 h2 h3 h4 h5 h6 ex_start_valid a b show ?thesis by blast
qed

text \<open>
  C5 (as amended). For a project that its owner's connection addresses and that has no
  RunState row, \<open>handleStartGeneration\<close> and \<open>handleUserMessage\<close> insert nothing: they
  return the store as it was, send the error \<open>internal_error\<close> ("Agent state not found") and
  close the socket with code 4004.
\<close>

theorem no_run_state_no_insert:
  assumes "canAccessProject db (conn_projectId c) (conn_userId c)"
    and "\<forall>s \<in> set (agent_states db). state_projectId s \<noteq> conn_projectId c"
  shows "handleStartGeneration now ws c db =
           Inr (ws\<lparr>sentMessages := sentMessages ws @
                      [error \<lparr>code = internal_error, message = js ''Agent state not found''\<rparr>],
                    closedWith := Some (4004, js ''Not Found'')\<rparr>, db) \<and>
         handleUserMessage now isoNow ws c text db =
           Inr (ws\<lparr>sentMessages := sentMessages ws @
                      [error \<lparr>code = internal_error, message = js ''Agent state not found''\<rparr>],
                    closedWith := Some (4004, js ''Not Found'')\<rparr>, db)"
  using handlers_without_state [OF assms] by (simp add: state_not_found_eq)

theorem no_run_state_no_insert_witness:
  "canAccessProject (ex_db\<lparr>agent_states := []\<rparr>) (conn_projectId ex_conn) (conn_userId ex_conn) \<and>
   agent_states (ex_db\<lparr>agent_states := []\<rparr>) = [] \<and>
   handleStartGeneration 5 ex_ws ex_conn (ex_db\<lparr>agent_states := []\<rparr>) =
     Inr (ex_ws\<lparr>sentMessages := sentMessages ex_ws @
                  [error \<lparr>code = internal_error, message = js ''Agent state not found''\<rparr>],
                closedWith := Some (4004, js ''Not Found'')\<rparr>,
          ex_db\<lparr>agent_states := []\<rparr>) \<and>
   handleUserMessage 5 (js ''now'') ex_ws ex_conn (js ''hello'') (ex_db\<lparr>agent_states := []\<rparr>) =
     Inr (ex_ws\<lparr>sentMessages := sentMessages ex_ws @
                  [error \<lparr>code = internal_error, message = js ''Agent state not found''\<rparr>],
                closedWith := Some (4004, js ''Not Found'')\<rparr>,
          ex_db\<lparr>agent_states := []\<rparr>)"
proof -
  have h1: "canAccessProject (ex_db\<lparr>agent_states := []\<rparr>) (conn_projectId ex_conn)
              (conn_userId ex_conn)"
    using ex_access by (simp add: ex_conn_def canAccessProject_def)
  have h2: "\<forall>s \<in> set (agent_states (ex_db\<lparr>agent_states := []\<rparr>)).
              state_projectId s \<noteq> conn_projectId ex_conn"
    by simp
  from no_run_state_no_insert [OF h1 h2, of 5 ex_ws "js ''now''" "js ''hello''"] h1
  show ?thesis by simp
qed

text \<open>
  The claim as first stated (the first command inserts the row) fails on a project without
  RunState: both handlers answer with the error, and no row exists afterwards.
\<close>

theorem first_command_counterexample:
  "handleStartGeneration 5 ex_ws ex_conn (ex_db\<lparr>agent_states := []\<rparr>) =
     Inr (ex_ws\<lparr>sentMessages :=
                  [error \<lparr>code = internal_error, message = js ''Agent state not found''\<rparr>],
                closedWith := Some (4004, js ''Not Found'')\<rparr>,
          ex_db\<lparr>agent_states := []\<rparr>) \<and>
   handleUserMessage 5 (js ''2026-02-09T10:00:00.000Z'') ex_ws ex_conn (js ''hello'')
       (ex_db\<lparr>agent_states := []\<rparr>) =
     Inr (ex_ws\<lparr>sentMessages :=
                  [error \<lparr>code = internal_error, message = js ''Agent state not found''\<rparr>],
                closedWith := Some (4004, js ''Not Found'')\<rparr>,
          ex_db\<lparr>agent_states := []\<rparr>) \<and>
   agent_states (ex_db\<lparr>agent_states := []\<rparr>) = []"
  by (simp add: handleStartGeneration_def handleUserMessage_def store_defs socket_defs ex_defs)

section \<open>A user message, from the frame to the stored history\<close>

lemma message_input_accepted:
  assumes "row_accepted s" and "jsonb_string_accepted text" and "jsonb_string_accepted isoNow"
  shows "state_values_accepted (message_input s c text isoNow)"
proof -
  have p: "case map_option (\<lambda>n. Integral (sint n)) (currentPhase s) of
             None \<Rightarrow> True | Some n \<Rightarrow> integer_value n \<noteq> None"
    by (cases "currentPhase s") (simp_all add: integer_value_sint)
  from assms have "text_accepted (currentState s)"
    and "jsonb_messages_accepted
           ((case conversationHistory s of None \<Rightarrow> [] | Some h \<Rightarrow> h) @
            [\<lparr>role = role_user, content = text, timestamp = isoNow\<rparr>])"
    by (auto simp: row_accepted_def jsonb_messages_accepted_def split: option.splits)
  with p show ?thesis
    by (simp add: state_values_accepted_def message_input_def)
qed

lemma message_input_refused:
  assumes "\<not> jsonb_string_accepted text"
  shows "\<not> state_values_accepted (message_input s c text isoNow)"
  using assms
  by (simp add: state_values_accepted_def message_input_def jsonb_messages_accepted_def)

lemma handleUserMessage_existing:
  assumes "schema_ok db" and "canAccessProject db (conn_projectId c) (conn_userId c)"
    and "s \<in> set (agent_states db)" and "state_projectId s = conn_projectId c"
    and "state_values_accepted (message_input s c text isoNow)"
  shows "\<exists>ws'. handleUserMessage now isoNow ws c text db =
                 Inr (ws', merged now (message_input s c text isoNow) db)"
proof -
  have g: "getByProjectForUser db (conn_projectId c) (conn_userId c) = Some s"
    using assms(1-4) by (rule getByProjectForUser_row)
  have u: "upsertForProject now db (message_input s c text isoNow) =
             Inr (Some (merge_state now (message_input s c text isoNow) s),
                  merged now (message_input s c text isoNow) db)"
    using assms by (intro upsertForProject_existing) (simp_all add: message_input_def)
  show ?thesis
    using g u [unfolded message_input_def]
    by (simp add: handleUserMessage_def Let_def message_input_def)
qed

lemma handleUserMessage_refused:
  assumes "schema_ok db" and "canAccessProject db (conn_projectId c) (conn_userId c)"
    and "s \<in> set (agent_states db)" and "state_projectId s = conn_projectId c"
    and "\<not> state_values_accepted (message_input s c text isoNow)"
  shows "handleUserMessage now isoNow ws c text db = Inl (DrizzleQueryError data_exception)"
proof -
  have g: "getByProjectForUser db (conn_projectId c) (conn_userId c) = Some s"
    using assms(1-4) by (rule getByProjectForUser_row)
  have u: "upsertForProject now db (message_input s c text isoNow) =
             Inl (DrizzleQueryError data_exception)"
    using assms(2,5) by (intro upsertForProject_refused) (simp_all add: message_input_def)
  show ?thesis
    using g u [unfolded message_input_def]
    by (simp add: handleUserMessage_def Let_def)
qed

lemma message_user_message:
  assumes "wsConnections srv (ws_id ws) = Some c"
    and "validateClientMessage decode parse raw = Inr (UserMessage text)"
    and "handleUserMessage now isoNow ws c text (database srv) = Inr (ws', db')"
  shows "websocketLifecycle_message decode parse now isoNow ws raw srv =
           (ws', srv\<lparr>database := db'\<rparr>)"
  using assms
  by (simp add: websocketLifecycle_message_def ensureAuthorizedConnection_cached dispatch_def)

lemma message_user_message_thrown:
  assumes "wsConnections srv (ws_id ws) = Some c"
    and "validateClientMessage decode parse raw = Inr (UserMessage text)"
    and "handleUserMessage now isoNow ws c text (database srv) = Inl thrown"
  shows "websocketLifecycle_message decode parse now isoNow ws raw srv =
           (ws\<lparr>sentMessages := sentMessages ws @
                  [error \<lparr>code = internal_error,
                          message = js ''Failed to handle websocket message''\<rparr>]\<rparr>, srv)"
  using assms
  by (simp add: websocketLifecycle_message_def ensureAuthorizedConnection_cached dispatch_def
      sendErrorMessage_def sendServerMessage_def)

text \<open>
  C10 (as amended). For a valid \<open>user_message\<close> payload with content \<open>text\<close>, received on
  an authorized connection whose project has a RunState row \<open>s\<close>: the validated command
  carries \<open>trim text\<close>. When the store takes the trimmed content (it has no U+0000 and no
  unpaired surrogate), the stored conversation history after the message callback is that of
  \<open>s\<close> followed by one user message whose content is \<open>trim text\<close>. Otherwise the store
  refuses the write: the callback answers \<open>internal_error\<close> and the server state is as it
  was.
\<close>

theorem user_message_stored_trimmed:
  assumes "parseMessagePayload decode parse raw = Some (JObj envelope)"
    and "property envelope ''type'' = Some (JStr (js ''user_message''))"
    and "property envelope ''data'' = Some (JObj data)"
    and "property data ''content'' = Some (JStr text)"
    and "trim text \<noteq> []"
    and "wsConnections srv (ws_id ws) = Some c"
    and "schema_ok (database srv)"
    and "canAccessProject (database srv) (conn_projectId c) (conn_userId c)"
    and "s \<in> set (agent_states (database srv))"
    and "state_projectId s = conn_projectId c"
    and "row_accepted s"
    and "jsonb_string_accepted isoNow"
  shows "validateClientMessage decode parse raw = Inr (UserMessage (trim text)) \<and>
         (jsonb_string_accepted (trim text) \<longrightarrow>
            (\<exists>ws' srv' s'.
               websocketLifecycle_message decode parse now isoNow ws raw srv = (ws', srv') \<and>
               getByProjectForUser (database srv') (conn_projectId c) (conn_userId c) = Some s' \<and>
               conversationHistory s' =
                 Some ((case conversationHistory s of None \<Rightarrow> [] | Some h \<Rightarrow> h) @
                       [\<lparr>role = role_user, content = trim text, timestamp = isoNow\<rparr>]))) \<and>
         (\<not> jsonb_string_accepted (trim text) \<longrightarrow>
            websocketLifecycle_message decode parse now isoNow ws raw srv =
              (ws\<lparr>sentMessages := sentMessages ws @
                     [error \<lparr>code = internal_error,
                             message = js ''Failed to handle websocket message''\<rparr>]\<rparr>, srv))"
proof (intro conjI impI)
  let ?input = "message_input s c (trim text) isoNow"
  have d: "toPlainObject (case property envelope ''data'' of
             None \<Rightarrow> JObj [] | Some JNull \<Rightarrow> JObj [] | Some d \<Rightarrow> d) = Some data"
    using assms(3) by (simp add: toPlainObject_def)
  have p: "userMessageDataSchema_safeParse data = Some (trim text)"
    using assms(4,5) by (simp add: safeParse_Some)
  show v: "validateClientMessage decode parse raw = Inr (UserMessage (trim text))"
    by (simp add: validateClientMessage_parsed [OF assms(1)]
        validateEnvelope_user_message [OF assms(2) d] p)
  {
    assume ok: "jsonb_string_accepted (trim text)"
    have a: "state_values_accepted ?input"
      using assms(11) ok assms(12) by (rule message_input_accepted)
    obtain ws' where
      h: "handleUserMessage now isoNow ws c (trim text) (database srv) =
            Inr (ws', merged now ?input (database srv))"
      using handleUserMessage_existing [OF assms(7-10) a] by blast
    have m: "websocketLifecycle_message decode parse now isoNow ws raw srv =
               (ws', srv\<lparr>database := merged now ?input (database srv)\<rparr>)"
      using assms(6) v h by (rule message_user_message)
    have i: "state_projectId s = uas_projectId ?input"
      "canAccessProject (database srv) (uas_projectId ?input) (uas_userId ?input)"
      using assms(8,10) by (simp_all add: message_input_def)
    from merged_get [OF assms(7,9) i, of now]
    have g: "getByProjectForUser (merged now ?input (database srv)) (conn_projectId c)
               (conn_userId c) = Some (merge_state now ?input s)"
      by (simp add: message_input_def)
    have c: "conversationHistory (merge_state now ?input s) =
               Some ((case conversationHistory s of None \<Rightarrow> [] | Some h \<Rightarrow> h) @
                     [\<lparr>role = role_user, content = trim text, timestamp = isoNow\<rparr>])"
      by (simp add: merge_state_def message_input_def)
    from m g c
    show "\<exists>ws' srv' s'.
            websocketLifecycle_message decode parse now isoNow ws raw srv = (ws', srv') \<and>
            getByProjectForUser (database srv') (conn_projectId c) (conn_userId c) = Some s' \<and>
            conversationHistory s' =
              Some ((case conversationHistory s of None \<Rightarrow> [] | Some h \<Rightarrow> h) @
                    [\<lparr>role = role_user, content = trim text, timestamp = isoNow\<rparr>])"
      by simp
  }
  {
    assume "\<not> jsonb_string_accepted (trim text)"
    then have "\<not> state_values_accepted ?input" by (rule message_input_refused)
    from handleUserMessage_refused [OF assms(7-10) this]
    have "handleUserMessage now isoNow ws c (trim text) (database srv) =
            Inl (DrizzleQueryError data_exception)" .
    with assms(6) v
    show "websocketLifecycle_message decode parse now isoNow ws raw srv =
            (ws\<lparr>sentMessages := sentMessages ws @
                   [error \<lparr>code = internal_error,
                           message = js ''Failed to handle websocket message''\<rparr>]\<rparr>, srv)"
      by (rule message_user_message_thrown)
  }
qed

theorem user_message_stored_trimmed_witness:
  "parseMessagePayload (\<lambda>b. []) (\<lambda>s. None) (Val (ex_user_message ''  hi  '')) =
     Some (JObj [(js ''type'', JStr (js ''user_message'')),
                 (js ''data'', JObj [(js ''content'', JStr (js ''  hi  ''))])]) \<and>
   trim (js ''  hi  '') = js ''hi'' \<and>
   jsonb_string_accepted (js ''hi'') \<and>
   wsConnections ex_srv (ws_id ex_ws) = Some ex_conn \<and>
   schema_ok (database ex_srv) \<and>
   canAccessProject (database ex_srv) (conn_projectId ex_conn) (conn_userId ex_conn) \<and>
   ex_state \<in> set (agent_states (database ex_srv)) \<and>
   state_projectId ex_state = conn_projectId ex_conn \<and>
   row_accepted ex_state \<and>
   jsonb_string_accepted (js ''2026-02-09T10:05:00.000Z'') \<and>
   validateClientMessage (\<lambda>b. []) (\<lambda>s. None) (Val (ex_user_message ''  hi  '')) =
     Inr (UserMessage (js ''hi'')) \<and>
   (\<exists>ws' srv' s'.
      websocketLifecycle_message (\<lambda>b. []) (\<lambda>s. None) 5 (js ''2026-02-09T10:05:00.000Z'') ex_ws
        (Val (ex_user_message ''  hi  '')) ex_srv = (ws', srv') \<and>
      getByProjectForUser (database srv') (js ''p1'') (js ''alice'') = Some s' \<and>
      conversationHistory s' =
        Some [\<lparr>role = role_user, content = js ''continue building'',
               timestamp = js ''2026-02-09T10:00:00.000Z''\<rparr>,
              \<lparr>role = role_user, content = js ''hi'',
               timestamp = js ''2026-02-09T10:05:00.000Z''\<rparr>])"
proof -
  let ?d = "[(js ''content'', JStr (js ''  hi  ''))]"
  let ?e = "[(js ''type'', JStr (js ''user_message'')), (js ''data'', JObj ?d)]"
  have h1: "parseMessagePayload (\<lambda>b. []) (\<lambda>s. None) (Val (ex_user_message ''  hi  '')) =
            Some (JObj ?e)"
    by (simp add: parseMessagePayload_def decodeIfBinary_def ex_user_message_def)
  have h2: "property ?e ''type'' = Some (JStr (js ''user_message''))"
    by (simp add: property_def)
  have h3: "property ?e ''data'' = Some (JObj ?d)"
    by (simp add: property_def js_def)
  have h4: "property ?d ''content'' = Some (JStr (js ''  hi  ''))"
    by (simp add: property_def)
  have t: "trim (js ''  hi  '') = js ''hi''"
    by (simp add: trim_def js_def isWhiteSpace_def)
  have h5: "trim (js ''  hi  '') \<noteq> []"
    by (simp add: t) (simp add: js_def)
  have h6: "wsConnections ex_srv (ws_id ex_ws) = Some ex_conn"
    by (simp add: ex_srv_def ex_ws_def)
  have h7: "schema_ok (database ex_srv)"
    using ex_schema_ok by (simp add: ex_srv_def)
  have h8: "canAccessProject (database ex_srv) (conn_projectId ex_conn) (conn_userId ex_conn)"
    using ex_access by (simp add: ex_srv_def ex_conn_def)
  have h9: "ex_state \<in> set (agent_states (database ex_srv))"
    by (simp add: ex_srv_def ex_db_def)
  have h10: "state_projectId ex_state = conn_projectId ex_conn"
    by (simp add: ex_state_def ex_conn_def)
  have h11: "row_accepted ex_state"
    by (simp add: row_accepted_def text_accepted_def jsonb_messages_accepted_def
        jsonb_string_accepted_def isHighSurrogate_def isLowSurrogate_def ex_state_def js_def)
  have h12: "jsonb_string_accepted (js ''2026-02-09T10:05:00.000Z'')"
    by (simp add: jsonb_string_accepted_def isHighSurrogate_def isLowSurrogate_def js_def)
  have ok: "jsonb_string_accepted (js ''hi'')"
    by (simp add: jsonb_string_accepted_def isHighSurrogate_def isLowSurrogate_def js_def)
  have c: "conn_projectId ex_conn = js ''p1''" "conn_userId ex_conn = js ''alice''"
    by (simp_all add: ex_conn_def)
  have k: "conversationHistory ex_state =
             Some [\<lparr>role = role_user, content = js ''continue building'',
                    timestamp = js ''2026-02-09T10:00:00.000Z''\<rparr>]"
    by (simp add: ex_state_def)
  from user_message_stored_trimmed [OF h1 h2 h3 h4 h5 h6 h7 h8 h9 h10 h11 h12,
      of 5] ok
  have r: "validateClientMessage (\<lambda>b. []) (\<lambda>s. None) (Val (ex_user_message ''  hi  '')) =
     Inr (UserMessage (js ''hi'')) \<and>
   (\<exists>ws' srv' s'.
      websocketLifecycle_message (\<lambda>b. []) (\<lambda>s. None) 5 (js ''2026-02-09T10:05:00.000Z'') ex_ws
        (Val (ex_user_message ''  hi  '')) ex_srv = (ws', srv') \<and>
      getByProjectForUser (database srv') (js ''p1'') (js ''alice'') = Some s' \<and>
      conversationHistory s' =
        Some [\<lparr>role = role_user, content = js ''continue building'',
               timestamp = js ''2026-02-09T10:00:00.000Z''\<rparr>,
              \<lparr>role = role_user, content = js ''hi'',
               timestamp = js ''2026-02-09T10:05:00.000Z''\<rparr>])"
    unfolding t c k by simp
  from h1 t ok h6 h7 h8 h9 h10 h11 h12 r show ?thesis by blast
qed

text \<open>
  The claim as first stated (the content of every valid payload is appended to the stored
  history) fails for the content \<open>"a\\u0000b"\<close>: the payload is valid and trimming leaves
  it, the \<open>jsonb\<close> column refuses it, the callback answers \<open>internal_error\<close> and the
  history stays as it was.
\<close>

theorem user_message_counterexample:
  "validateClientMessage (\<lambda>b. []) (\<lambda>s. None) (Val ex_nul_message) =
     Inr (UserMessage [0x61, 0x0, 0x62]) \<and>
   websocketLifecycle_message (\<lambda>b. []) (\<lambda>s. None) 5 (js ''2026-02-09T10:05:00.000Z'') ex_ws
       (Val ex_nul_message) ex_srv =
     (ex_ws\<lparr>sentMessages :=
              [error \<lparr>code = internal_error,
                      message = js ''Failed to handle websocket message''\<rparr>]\<rparr>, ex_srv)"
proof -
  have v: "validateClientMessage (\<lambda>b. []) (\<lambda>s. None) (Val ex_nul_message) =
             Inr (UserMessage [0x61, 0x0, 0x62])"
    by (simp add: validateClientMessage_def parseMessagePayload_def decodeIfBinary_def
        ex_nul_message_def validateEnvelope_def toPlainObject_def property_def known_types_simp
        toError_def userMessageDataSchema_safeParse_def trim_def isWhiteSpace_def)
       (simp add: js_def)
  have h: "handleUserMessage 5 (js ''2026-02-09T10:05:00.000Z'') ex_ws ex_conn [0x61, 0x0, 0x62]
             ex_db = Inl (DrizzleQueryError data_exception)"
    by (simp add: handleUserMessage_def store_defs ex_defs js_def)
  have w: "wsConnections ex_srv (ws_id ex_ws) = Some ex_conn" "database ex_srv = ex_db"
    by (simp_all add: ex_srv_def ex_ws_def)
  have s: "sentMessages ex_ws = []" by (simp add: ex_ws_def)
  from message_user_message_thrown [OF w(1) v, of 5 "js ''2026-02-09T10:05:00.000Z''"] h w(2) s
  have "websocketLifecycle_message (\<lambda>b. []) (\<lambda>s. None) 5 (js ''2026-02-09T10:05:00.000Z'') ex_ws
       (Val ex_nul_message) ex_srv =
     (ex_ws\<lparr>sentMessages :=
              [error \<lparr>code = internal_error,
                      message = js ''Failed to handle websocket message''\<rparr>]\<rparr>, ex_srv)"
    by simp
  with v show ?thesis by simp
qed

end
